theory Spec2Isabelle
  imports Main "HOL-Library.Char_ord" "HOL-Library.List_Lexorder"
begin

section \<open>Data model\<close>

text \<open>
  Go byte slices and Go strings are both sequences of bytes; both are modelled as
  \<open>string\<close> (a list of 8-bit characters), so \<open>[]byte(s)\<close> and \<open>string(b)\<close> are the
  identity. A \<open>peer.ID\<close> is a Go string. Keys and content identifiers are kept in
  their serialized form.
\<close>

type_synonym bytes = string
type_synonym peer_id = string
type_synonym privkey = bytes
type_synonym pubkey = bytes
type_synonym cid = bytes

text \<open>
  A Go \<open>error\<close> value is either an error with a text (\<open>errors.New\<close>, or whatever an
  external call reports), or the run-time panic of calling through a nil pointer.
\<close>

datatype error = Err string | NilPointerDereference

text \<open>
  Protobuf enums are open: a value outside the declared names can arrive from the wire,
  which is why \<open>HandlerForMsgType\<close> has a \<open>default\<close> case.
\<close>

datatype Message_MessageType =
    Message_PING | Message_THREAD_BLOCK | Message_OFFLINE_ACK | Message_OFFLINE_RELAY
  | Message_BLOCK | Message_STORE | Message_ERROR | Message_OTHER int

datatype ThreadBlock_Type =
    ThreadBlock_INVITE | ThreadBlock_PHOTO | ThreadBlock_COMMENT | ThreadBlock_LIKE
  | ThreadBlock_OTHER int

record Any =
  TypeUrl :: string
  Value :: bytes

record Message =
  MessageType :: Message_MessageType
  Payload :: "Any option"

record Envelope =
  env_Message :: "Message option"
  env_Pubkey :: bytes
  env_Signature :: bytes

record SignedThreadBlock =
  signed_Id :: string
  signed_ThreadId :: string
  signed_ThreadName :: string
  signed_IssuerPubKey :: bytes
  signed_Data :: bytes
  signed_Signature :: bytes

record ThreadBlock =
  block_Type :: ThreadBlock_Type
  block_Target :: string
  block_TargetKey :: bytes
  block_Parents :: "string list"

record Thread =
  thread_Id :: string
  thread_Name :: string
  thread_Key :: privkey

record Peer =
  peer_Row :: string
  peer_Id :: string
  peer_ThreadId :: string
  peer_PubKey :: bytes

record Pointer =
  CancelId :: "peer_id option"

record Block =
  Cid :: string
  RawData :: bytes

record CidList =
  Cids :: "string list"

record pbError =
  error_Message :: string

text \<open>
  The service \<open>s *TextileService\<close>. Its fields \<open>self\<close>, \<open>node\<close> and \<open>datastore\<close>, and the
  library functions the handlers call (protobuf, libp2p keys, cid, the thread
  registry, the stores) are not part of the handlers; they are the fields of this
  record, so every theorem holds for whatever they compute. \<open>'s\<close> is the mutable
  state behind the service (datastore tables, thread registry, block store): a call
  that may change it returns the new state beside its result.
\<close>

record 's TextileService =
  self_Pretty :: string
  node_PrivateKey :: privkey
  UnmarshalAny_SignedThreadBlock :: "Any \<Rightarrow> error + SignedThreadBlock"
  Unmarshal_ThreadBlock :: "bytes \<Rightarrow> error + ThreadBlock"
  getThread :: "'s \<Rightarrow> string \<Rightarrow> Thread option"
  addThread :: "'s \<Rightarrow> string \<Rightarrow> privkey \<Rightarrow> (error + Thread) \<times> 's"
  Thread_Verify :: "Thread \<Rightarrow> bytes \<Rightarrow> bytes \<Rightarrow> error + bool"
  Thread_HandleBlock :: "'s \<Rightarrow> Thread \<Rightarrow> string \<Rightarrow> error option \<times> 's"
  crypto_Decrypt :: "privkey \<Rightarrow> bytes \<Rightarrow> error + bytes"
  UnmarshalPrivateKey :: "bytes \<Rightarrow> error + privkey"
  GetPublic :: "privkey \<Rightarrow> pubkey"
  UnmarshalPublicKey :: "bytes \<Rightarrow> error + pubkey"
  pubkey_Verify :: "pubkey \<Rightarrow> bytes \<Rightarrow> bytes \<Rightarrow> error + bool"
  pubkey_Bytes :: "pubkey \<Rightarrow> error + bytes"
  IDFromPublicKey :: "pubkey \<Rightarrow> error + peer_id"
  IDB58Decode :: "string \<Rightarrow> error + peer_id"
  Pretty :: "peer_id \<Rightarrow> string"
  ksuid_New :: "'s \<Rightarrow> string"
  Peers_Add :: "'s \<Rightarrow> Peer \<Rightarrow> error option \<times> 's"
  Pointers_Get :: "'s \<Rightarrow> peer_id \<Rightarrow> error + Pointer"
  Pointers_Delete :: "'s \<Rightarrow> peer_id \<Rightarrow> error option \<times> 's"
  Unmarshal_Envelope :: "bytes \<Rightarrow> error + Envelope"
  Marshal_Message :: "Message option \<Rightarrow> error + bytes"
  UnmarshalAny_Block :: "Any \<Rightarrow> error + Block"
  cid_Decode :: "string \<Rightarrow> error + cid"
  cid_String :: "cid \<Rightarrow> string"
  NewBlockWithCid :: "bytes \<Rightarrow> cid \<Rightarrow> error + Block"
  Blocks_AddBlock :: "'s \<Rightarrow> Block \<Rightarrow> error option \<times> 's"
  Blockstore_Has :: "'s \<Rightarrow> cid \<Rightarrow> error + bool"
  UnmarshalAny_CidList :: "Any \<Rightarrow> error + CidList"
  MarshalAny_CidList :: "CidList \<Rightarrow> error + Any"
  UnmarshalAny_Error :: "Any \<Rightarrow> error + pbError"

text \<open>
  A handler returns the Go pair \<open>(*pb.Message, error)\<close>, modelled as a pair of options
  (\<open>None\<close> is nil), beside the new state: \<open>return nil, err\<close> is \<open>(None, Some e)\<close>,
  \<open>return nil, nil\<close> is \<open>(None, None)\<close>. \<open>handleStore\<close> can return a reply together with
  an error.
\<close>

type_synonym 's result = "(Message option \<times> error option) \<times> 's"

section \<open>Handlers (net/service/handlers.go)\<close>

text \<open>
  \<open>HandlerForMsgType\<close> returns a method value or nil. The methods are named by a
  datatype; \<open>call_handler\<close> below applies one.
\<close>

datatype handler =
    H_handlePing | H_handleThreadBlock | H_handleOfflineAck | H_handleOfflineRelay
  | H_handleBlock | H_handleStore | H_handleError

fun HandlerForMsgType :: "Message_MessageType \<Rightarrow> handler option" where
  "HandlerForMsgType Message_PING = Some H_handlePing"
| "HandlerForMsgType Message_THREAD_BLOCK = Some H_handleThreadBlock"
| "HandlerForMsgType Message_OFFLINE_ACK = Some H_handleOfflineAck"
| "HandlerForMsgType Message_OFFLINE_RELAY = Some H_handleOfflineRelay"
| "HandlerForMsgType Message_BLOCK = Some H_handleBlock"
| "HandlerForMsgType Message_STORE = Some H_handleStore"
| "HandlerForMsgType Message_ERROR = Some H_handleError"
| "HandlerForMsgType (Message_OTHER t) = None"

definition handlePing ::
  "'s TextileService \<Rightarrow> 's \<Rightarrow> peer_id \<Rightarrow> Message \<Rightarrow> bool \<Rightarrow> 's result" where
  "handlePing s st pid pmes options = ((Some pmes, None), st)"

text \<open>
  The last statement of \<open>handleThreadBlock\<close>, \<open>return nil, thrd.HandleBlock(signed.Id)\<close>.
  \<open>thrd\<close> is a pointer, and \<open>NilPointerDereference\<close> is the outcome of the call made
  while it is nil (a fatal failure, in the words of the spec).
\<close>

definition thrd_HandleBlock ::
  "'s TextileService \<Rightarrow> 's \<Rightarrow> Thread option \<Rightarrow> string \<Rightarrow> 's result" where
  "thrd_HandleBlock s st thrd bid =
     (case thrd of
        None \<Rightarrow> ((None, Some NilPointerDereference), st)
      | Some t \<Rightarrow>
          (case Thread_HandleBlock s st t bid of
             (Some e, st') \<Rightarrow> ((None, Some e), st')
           | (None, st') \<Rightarrow> ((None, None), st')))"

text \<open>The \<open>case pb.ThreadBlock_INVITE\<close> arm of the switch, followed by the final call.\<close>

definition handleThreadBlock_INVITE ::
  "'s TextileService \<Rightarrow> 's \<Rightarrow> SignedThreadBlock \<Rightarrow> ThreadBlock \<Rightarrow> Thread option \<Rightarrow> 's result" where
  "handleThreadBlock_INVITE s st signed block thrd =
     (if thrd \<noteq> None then ((None, Some (Err ''thread exists'')), st)
      else if block_Target block \<noteq> self_Pretty s then ((None, Some (Err ''invalid invite target'')), st)
      else
        (case crypto_Decrypt s (node_PrivateKey s) (block_TargetKey block) of
           Inl e \<Rightarrow> ((None, Some e), st)
         | Inr skb \<Rightarrow>
        (case UnmarshalPrivateKey s skb of
           Inl e \<Rightarrow> ((None, Some e), st)
         | Inr sk \<Rightarrow>
        (case pubkey_Verify s (GetPublic s sk) (signed_Data signed) (signed_Signature signed) of
           Inl e \<Rightarrow> ((None, Some (Err ''bad signature'')), st)
         | Inr good \<Rightarrow>
        if \<not> good then ((None, Some (Err ''bad signature'')), st)
        else
        (case addThread s st (signed_ThreadName signed) sk of
           (Inl e, st1) \<Rightarrow> ((None, Some e), st1)
         | (Inr thrd', st1) \<Rightarrow>
        (case UnmarshalPublicKey s (signed_IssuerPubKey signed) of
           Inl e \<Rightarrow> ((None, Some e), st1)
         | Inr ppk \<Rightarrow>
        (case pubkey_Bytes s ppk of
           Inl e \<Rightarrow> ((None, Some e), st1)
         | Inr ppkb \<Rightarrow>
        (case IDFromPublicKey s ppk of
           Inl e \<Rightarrow> ((None, Some e), st1)
         | Inr peerId \<Rightarrow>
        (case Peers_Add s st1
                \<lparr>peer_Row = ksuid_New s st1, peer_Id = Pretty s peerId,
                 peer_ThreadId = thread_Id thrd', peer_PubKey = ppkb\<rparr> of
           (Some e, st2) \<Rightarrow> ((None, Some e), st2)
         | (None, st2) \<Rightarrow> thrd_HandleBlock s st2 (Some thrd') (signed_Id signed))))))))))"

definition handleThreadBlock ::
  "'s TextileService \<Rightarrow> 's \<Rightarrow> peer_id \<Rightarrow> Message \<Rightarrow> bool \<Rightarrow> 's result" where
  "handleThreadBlock s st pid pmes options =
     (case Payload pmes of
        None \<Rightarrow> ((None, Some (Err ''payload is nil'')), st)
      | Some payload \<Rightarrow>
     (case UnmarshalAny_SignedThreadBlock s payload of
        Inl e \<Rightarrow> ((None, Some e), st)
      | Inr signed \<Rightarrow>
     (case Unmarshal_ThreadBlock s (signed_Data signed) of
        Inl e \<Rightarrow> ((None, Some e), st)
      | Inr block \<Rightarrow>
     (let thrd = getThread s st (signed_ThreadId signed) in
      case block_Type block of
        ThreadBlock_INVITE \<Rightarrow> handleThreadBlock_INVITE s st signed block thrd
      | ThreadBlock_PHOTO \<Rightarrow>
          (case thrd of
             None \<Rightarrow> ((None, Some (Err ''thread not found'')), st)
           | Some t \<Rightarrow>
               (case Thread_Verify s t (signed_Data signed) (signed_Signature signed) of
                  Inl e \<Rightarrow> ((None, Some (Err ''bad signature'')), st)
                | Inr good \<Rightarrow>
                    if \<not> good then ((None, Some (Err ''bad signature'')), st)
                    else thrd_HandleBlock s st thrd (signed_Id signed)))
      | ThreadBlock_COMMENT \<Rightarrow> ((None, Some (Err ''TODO'')), st)
      | ThreadBlock_LIKE \<Rightarrow> ((None, Some (Err ''TODO'')), st)
      | ThreadBlock_OTHER t \<Rightarrow> thrd_HandleBlock s st thrd (signed_Id signed)))))"

definition handleOfflineAck ::
  "'s TextileService \<Rightarrow> 's \<Rightarrow> peer_id \<Rightarrow> Message \<Rightarrow> bool \<Rightarrow> 's result" where
  "handleOfflineAck s st pid pmes options =
     (case Payload pmes of
        None \<Rightarrow> ((None, Some (Err ''payload is nil'')), st)
      | Some payload \<Rightarrow>
     (case IDB58Decode s (Value payload) of
        Inl e \<Rightarrow> ((None, Some e), st)
      | Inr decoded \<Rightarrow>
     (case Pointers_Get s st pid of
        Inl e \<Rightarrow> ((None, Some e), st)
      | Inr pointer \<Rightarrow>
     if (case CancelId pointer of None \<Rightarrow> True | Some c \<Rightarrow> Pretty s c \<noteq> Pretty s pid)
     then ((None, Some (Err ''peer is not authorized to delete pointer'')), st)
     else
       (case Pointers_Delete s st pid of
          (Some e, st') \<Rightarrow> ((None, Some e), st')
        | (None, st') \<Rightarrow> ((None, None), st')))))"

definition handleBlock ::
  "'s TextileService \<Rightarrow> 's \<Rightarrow> peer_id \<Rightarrow> Message \<Rightarrow> bool \<Rightarrow> 's result" where
  "handleBlock s st pid pmes options =
     (case Payload pmes of
        None \<Rightarrow> ((None, Some (Err ''payload is nil'')), st)
      | Some payload \<Rightarrow>
     (case UnmarshalAny_Block s payload of
        Inl e \<Rightarrow> ((None, Some e), st)
      | Inr pbblock \<Rightarrow>
     (case cid_Decode s (Cid pbblock) of
        Inl e \<Rightarrow> ((None, Some e), st)
      | Inr id' \<Rightarrow>
     (case NewBlockWithCid s (RawData pbblock) id' of
        Inl e \<Rightarrow> ((None, Some e), st)
      | Inr block \<Rightarrow>
     (case Blocks_AddBlock s st block of
        (Some e, st') \<Rightarrow> ((None, Some e), st')
      | (None, st') \<Rightarrow> ((None, None), st'))))))"

text \<open>The closure \<open>errorResponse\<close> of \<open>handleStore\<close>.\<close>

definition errorResponse :: "string \<Rightarrow> Message" where
  "errorResponse error =
     \<lparr>MessageType = Message_ERROR, Payload = Some \<lparr>TypeUrl = [], Value = error\<rparr>\<rparr>"

text \<open>
  The loop \<open>for _, id := range cList.Cids\<close> of \<open>handleStore\<close>; \<open>need\<close> is the slice built
  so far. An id that does not decode is skipped (\<open>continue\<close>); a decoded one is appended
  when \<open>Has\<close> fails or answers false.
\<close>

fun store_need :: "'s TextileService \<Rightarrow> 's \<Rightarrow> string list \<Rightarrow> string list \<Rightarrow> string list" where
  "store_need s st [] need = need"
| "store_need s st (id' # ids) need =
     (case cid_Decode s id' of
        Inl e \<Rightarrow> store_need s st ids need
      | Inr decoded \<Rightarrow>
          (case Blockstore_Has s st decoded of
             Inl e \<Rightarrow> store_need s st ids (need @ [cid_String s decoded])
           | Inr has \<Rightarrow>
               if \<not> has then store_need s st ids (need @ [cid_String s decoded])
               else store_need s st ids need))"

definition handleStore ::
  "'s TextileService \<Rightarrow> 's \<Rightarrow> peer_id \<Rightarrow> Message \<Rightarrow> bool \<Rightarrow> 's result" where
  "handleStore s st pid pmes options =
     (case Payload pmes of
        None \<Rightarrow> ((None, Some (Err ''payload is nil'')), st)
      | Some payload \<Rightarrow>
     (case UnmarshalAny_CidList s payload of
        Inl e \<Rightarrow> ((Some (errorResponse ''could not unmarshall message''), Some e), st)
      | Inr cList \<Rightarrow>
     (let need = store_need s st (Cids cList) [] in
      case MarshalAny_CidList s \<lparr>Cids = need\<rparr> of
        Inl e \<Rightarrow> ((Some (errorResponse ''error marshalling response''), Some e), st)
      | Inr payload' \<Rightarrow>
          ((Some \<lparr>MessageType = Message_STORE, Payload = Some payload'\<rparr>, None), st))))"

definition handleError ::
  "'s TextileService \<Rightarrow> 's \<Rightarrow> peer_id \<Rightarrow> Message \<Rightarrow> bool \<Rightarrow> 's result" where
  "handleError s st peer pmes options =
     (case Payload pmes of
        None \<Rightarrow> ((None, Some (Err ''payload is nil'')), st)
      | Some payload \<Rightarrow>
     (case UnmarshalAny_Error s payload of
        Inl e \<Rightarrow> ((None, Some e), st)
      | Inr errorMessage \<Rightarrow> ((None, None), st)))"

text \<open>
  \<open>handleOfflineRelay\<close> calls the handler of the inner message, which can be
  \<open>handleOfflineRelay\<close> again: a relayed envelope may wrap another one. What the
  decryption and the protobuf decoder return is not limited here, so the nesting is
  bounded by fuel: the first argument is the number of envelopes that may still be
  opened, and \<open>None\<close> says that it ran out. \<open>call_handler n s h\<close> is the call
  \<open>h(pid, pmes, options)\<close> of a method value \<open>h\<close>.
\<close>

fun call_handler ::
  "nat \<Rightarrow> 's TextileService \<Rightarrow> handler \<Rightarrow> 's \<Rightarrow> peer_id \<Rightarrow> Message \<Rightarrow> bool \<Rightarrow> 's result option"
and handleOfflineRelay ::
  "nat \<Rightarrow> 's TextileService \<Rightarrow> 's \<Rightarrow> peer_id \<Rightarrow> Message \<Rightarrow> bool \<Rightarrow> 's result option"
where
  "call_handler n s h st pid pmes options =
     (case h of
        H_handlePing \<Rightarrow> Some (handlePing s st pid pmes options)
      | H_handleThreadBlock \<Rightarrow> Some (handleThreadBlock s st pid pmes options)
      | H_handleOfflineAck \<Rightarrow> Some (handleOfflineAck s st pid pmes options)
      | H_handleOfflineRelay \<Rightarrow> handleOfflineRelay n s st pid pmes options
      | H_handleBlock \<Rightarrow> Some (handleBlock s st pid pmes options)
      | H_handleStore \<Rightarrow> Some (handleStore s st pid pmes options)
      | H_handleError \<Rightarrow> Some (handleError s st pid pmes options))"
| "handleOfflineRelay 0 s st pid pmes options = None"
| "handleOfflineRelay (Suc n) s st pid pmes options =
     (case Payload pmes of
        None \<Rightarrow> Some ((None, Some (Err ''payload is nil'')), st)
      | Some payload \<Rightarrow>
     (case crypto_Decrypt s (node_PrivateKey s) (Value payload) of
        Inl e \<Rightarrow> Some ((None, Some e), st)
      | Inr plaintext \<Rightarrow>
     (case Unmarshal_Envelope s plaintext of
        Inl e \<Rightarrow> Some ((None, Some e), st)
      | Inr env \<Rightarrow>
     (case Marshal_Message s (env_Message env) of
        Inl e \<Rightarrow> Some ((None, Some e), st)
      | Inr ser \<Rightarrow>
     (case UnmarshalPublicKey s (env_Pubkey env) of
        Inl e \<Rightarrow> Some ((None, Some e), st)
      | Inr pubkey \<Rightarrow>
     (case pubkey_Verify s pubkey ser (env_Signature env) of
        Inl e \<Rightarrow> Some ((None, Some e), st)
      | Inr valid \<Rightarrow>
     if \<not> valid then Some ((None, None), st)
     else
     (case IDFromPublicKey s pubkey of
        Inl e \<Rightarrow> Some ((None, Some e), st)
      | Inr id' \<Rightarrow>
     (case env_Message env of
        None \<Rightarrow> Some ((None, Some NilPointerDereference), st)
      | Some inner \<Rightarrow>
     (case HandlerForMsgType (MessageType inner) of
        None \<Rightarrow> Some ((None, None), st)
      | Some h \<Rightarrow>
     (case call_handler n s h st id' inner True of
        None \<Rightarrow> None
      | Some ((reply, Some e), st') \<Rightarrow> Some ((None, Some e), st')
      | Some ((reply, None), st') \<Rightarrow> Some ((None, None), st')))))))))))"

section \<open>The block outbox (core/block_outbox.go)\<close>

record BlockMessage =
  msg_Id :: string
  msg_Peer :: string
  msg_Env :: Envelope
  msg_Date :: nat

record Contact =
  contact_Id :: string
  Inboxes :: "string list"

text \<open>
  What \<open>handle\<close> does to the outside: a direct send through the service, or a request
  queued in the cafe outbox.
\<close>

datatype effect =
    SendMessage_call string Envelope
  | AddForInbox_call string Envelope "string list"

text \<open>
  The outbox \<open>q *BlockOutbox\<close>: what \<open>q.service()\<close>, \<open>q.node()\<close>, \<open>q.datastore\<close> and
  \<open>q.cafeOutbox\<close> answer during one flush. \<open>Delete_error\<close> is the error, if any, that
  the datastore reports when asked to delete a message id.

  \<open>race_outcome\<close> stands for the scheduler. \<open>batch\<close> starts one goroutine for each peer
  of the page, and each goroutine runs \<open>toDelete = append(toDelete, msg.Id)\<close> on the one
  slice they share, with no lock. When two goroutines or more append, these are data
  races: the language promises nothing about the slice that \<open>batch\<close> reads after
  \<open>wg.Wait()\<close> (ids can be lost, the slice can be corrupted), and the process may crash.
  For such a page the slice is not computed: it is \<open>race_outcome q\<close> of the page, \<open>None\<close>
  for a crash, and nothing is assumed of it. The pages of one flush differ from each
  other, so a function of the page covers every run.
\<close>

record BlockOutbox =
  service_is_nil :: bool
  service_online :: bool
  SwarmConnected :: "string \<Rightarrow> error + bool"
  SendMessage :: "string \<Rightarrow> Envelope \<Rightarrow> error option"
  Peers_Get :: "string \<Rightarrow> Contact option"
  AddForInbox :: "string \<Rightarrow> Envelope \<Rightarrow> string list \<Rightarrow> error option"
  Delete_error :: "string \<Rightarrow> error option"
  race_outcome :: "BlockMessage list \<Rightarrow> string list option"

definition blockFlushGroupSize :: nat where
  "blockFlushGroupSize = 16"

text \<open>
  Modelled from the spec: \<open>datastore.BlockMessages().List(offset, limit)\<close>, whose code
  (the datastore) is not among the sources. The spec has a page be at most \<open>limit\<close>
  pending messages ordered by id, the first page starting from the smallest id and each
  later one after the last id of the page before. Ids are compared as byte strings;
  \<open>Flush\<close> passes the empty string, which is below every id that \<open>Add\<close> creates.
\<close>

definition BlockMessages_List :: "BlockMessage list \<Rightarrow> string \<Rightarrow> nat \<Rightarrow> BlockMessage list" where
  "BlockMessages_List table offset limit =
     take limit (sort_key msg_Id (filter (\<lambda>m. offset < msg_Id m) table))"

text \<open>
  Modelled from the spec: \<open>datastore.BlockMessages().Delete(id)\<close>, also of the datastore.
  It removes the message of that id, or reports an error and leaves the table as it is.
\<close>

definition BlockMessages_Delete ::
  "BlockOutbox \<Rightarrow> BlockMessage list \<Rightarrow> string \<Rightarrow> error option \<times> BlockMessage list" where
  "BlockMessages_Delete q table i =
     (case Delete_error q i of
        Some e \<Rightarrow> (Some e, table)
      | None \<Rightarrow> (None, filter (\<lambda>m. msg_Id m \<noteq> i) table))"

text \<open>
  \<open>handle\<close> returns its error (\<open>None\<close> is nil) and the effects of the call. \<open>sendable\<close>
  starts as \<open>q.service().online\<close>; when it is true the connection check runs, an error
  of the check is returned, and \<open>sendable\<close> becomes what the check answers. So the
  first \<open>case\<close> below is the value of \<open>sendable\<close> after the first \<open>if\<close> block, or the
  error returned from inside it.
\<close>

definition handle :: "BlockOutbox \<Rightarrow> string \<Rightarrow> BlockMessage \<Rightarrow> error option \<times> effect list" where
  "handle q peerId msg =
     (case (if service_online q then SwarmConnected q peerId else Inr False) of
        Inl e \<Rightarrow> (Some e, [])
      | Inr sendable \<Rightarrow>
          (let err = (if sendable then SendMessage q peerId (msg_Env msg) else None);
               fx = (if sendable then [SendMessage_call peerId (msg_Env msg)] else [])
           in if \<not> sendable \<or> err \<noteq> None then
                (case Peers_Get q peerId of
                   None \<Rightarrow> (None, fx)
                 | Some contact \<Rightarrow>
                     if length (Inboxes contact) > 0 then
                       (case AddForInbox q peerId (msg_Env msg) (Inboxes contact) of
                          Some e \<Rightarrow>
                            (Some e, fx @ [AddForInbox_call peerId (msg_Env msg) (Inboxes contact)])
                        | None \<Rightarrow>
                            (None, fx @ [AddForInbox_call peerId (msg_Env msg) (Inboxes contact)]))
                     else (None, fx))
              else (None, fx)))"

text \<open>
  \<open>groups[msg.Peer] = append(groups[msg.Peer], msg)\<close>: the map from peer id to its
  messages, kept as an association list in the order in which the peers first appear.
\<close>

fun group_add ::
  "(string \<times> BlockMessage list) list \<Rightarrow> BlockMessage \<Rightarrow> (string \<times> BlockMessage list) list" where
  "group_add [] msg = [(msg_Peer msg, [msg])]"
| "group_add ((k, ms) # groups) msg =
     (if k = msg_Peer msg then (k, ms @ [msg]) # groups else (k, ms) # group_add groups msg)"

text \<open>
  The body of one goroutine, which has the messages of one peer: it handles them in
  order, skips a message whose \<open>handle\<close> fails and appends the id of any other to
  \<open>toDelete\<close>. \<open>worker\<close> is the sequence of the ids that the goroutine appends.
\<close>

fun worker :: "BlockOutbox \<Rightarrow> string \<Rightarrow> BlockMessage list \<Rightarrow> string list" where
  "worker q i [] = []"
| "worker q i (msg # msgs) =
     (case fst (handle q i msg) of
        Some e \<Rightarrow> worker q i msgs
      | None \<Rightarrow> msg_Id msg # worker q i msgs)"

text \<open>
  The goroutines of a page, up to \<open>wg.Wait()\<close>: the slice \<open>toDelete\<close> that \<open>batch\<close> reads
  afterwards, or \<open>None\<close> for a crash. A goroutine touches \<open>toDelete\<close> only when it
  appends. When one goroutine at most has something to append there is no race, and
  the slice is what that goroutine appended, in its order (the start of a goroutine
  and \<open>wg.Wait()\<close> order its appends with the reads of \<open>batch\<close>). When two or more
  append, the outcome is that of the race.
\<close>

definition go_workers ::
  "BlockOutbox \<Rightarrow> (string \<times> BlockMessage list) list \<Rightarrow> BlockMessage list \<Rightarrow> string list option" where
  "go_workers q groups msgs =
     (let appended = map (\<lambda>(i, g). worker q i g) groups
      in if length (filter (\<lambda>ids. ids \<noteq> []) appended) \<le> 1 then Some (concat appended)
         else race_outcome q msgs)"

text \<open>
  One way the race goes. The statement \<open>toDelete = append(toDelete, msg.Id)\<close> reads the
  slice, extends what it read by the id and stores the result, and other goroutines
  can run between the read and the store. A goroutine is the ids it has still to
  append and, between a read and the store, the slice it read. \<open>go_step k\<close> is the next
  step of goroutine \<open>k\<close>; \<open>interleave schedule appended\<close> is the slice left when the
  goroutines, given by the ids they append, take their steps in the order of the
  schedule. An id whose store is overwritten by a store of an older read is lost.
  These are some of the outcomes of the race, not all of them: \<open>go_workers\<close> does not
  rely on this.
\<close>

type_synonym goroutine = "string list \<times> string list option"

fun go_step :: "nat \<Rightarrow> goroutine list \<times> string list \<Rightarrow> goroutine list \<times> string list" where
  "go_step k (gs, toDelete) =
     (if k < length gs then
        (case gs ! k of
           ([], r) \<Rightarrow> (gs, toDelete)
         | (i # ids, None) \<Rightarrow> (gs[k := (i # ids, Some toDelete)], toDelete)
         | (i # ids, Some read) \<Rightarrow> (gs[k := (ids, None)], read @ [i]))
      else (gs, toDelete))"

definition interleave :: "nat list \<Rightarrow> string list list \<Rightarrow> string list" where
  "interleave schedule appended =
     snd (fold go_step schedule (map (\<lambda>ids. (ids, None)) appended, []))"

text \<open>
  The loop over \<open>toDelete\<close>: a failed delete is logged and skipped. (The slice \<open>deleted\<close>
  of the source only feeds the log line.)
\<close>

fun delete_all :: "BlockOutbox \<Rightarrow> BlockMessage list \<Rightarrow> string list \<Rightarrow> BlockMessage list" where
  "delete_all q table [] = table"
| "delete_all q table (i # toDelete) =
     (case BlockMessages_Delete q table i of
        (Some e, table') \<Rightarrow> delete_all q table' toDelete
      | (None, table') \<Rightarrow> delete_all q table' toDelete)"

text \<open>
  One call of \<open>batch\<close> on a non-empty page, up to its recursive call: the table after the
  deletions and the page \<open>next\<close>, or \<open>None\<close> when the page crashed. As in the source,
  \<open>next\<close> is read before the deletions are made. The state followed through a flush is
  the table of queued messages; the sends and hand-overs of \<open>handle\<close> happen in the
  order in which the goroutines run and are not collected.
\<close>

definition batch_page ::
  "BlockOutbox \<Rightarrow> BlockMessage list \<Rightarrow> BlockMessage list
     \<Rightarrow> (BlockMessage list \<times> BlockMessage list) option" where
  "batch_page q table msgs =
     (case go_workers q (foldl group_add [] msgs) msgs of
        None \<Rightarrow> None
      | Some toDelete \<Rightarrow>
          (let offset = msg_Id (last msgs);
               next = BlockMessages_List table offset blockFlushGroupSize;
               table' = delete_all q table toDelete
           in Some (table', next)))"

text \<open>How a flush ends: it returns, with the table it leaves, or the process crashes.\<close>

datatype flush_result = Returned "BlockMessage list" | Crashed

function batch :: "BlockOutbox \<Rightarrow> BlockMessage list \<Rightarrow> BlockMessage list \<Rightarrow> flush_result" where
  "batch q table msgs =
     (if length msgs = 0 then Returned table
      else (case batch_page q table msgs of
              None \<Rightarrow> Crashed
            | Some (table', next) \<Rightarrow> batch q table' next))"
  by pat_completeness auto

text \<open>
  \<open>Flush\<close> holds the mutex \<open>q.mux\<close> from start to end, so one flush runs at a time; the
  model is of one flush.
\<close>

definition Flush :: "BlockOutbox \<Rightarrow> BlockMessage list \<Rightarrow> flush_result" where
  "Flush q table =
     (if service_is_nil q then Returned table
      else batch q table (BlockMessages_List table [] blockFlushGroupSize))"

text \<open>
  The measure of \<open>batch\<close>: the queued messages whose id is above the last id of the
  page in hand, and one more while the page is not empty.
\<close>

definition pending_after :: "BlockMessage list \<Rightarrow> BlockMessage list \<Rightarrow> nat" where
  "pending_after table msgs =
     (if msgs = [] then 0
      else Suc (length (filter (\<lambda>m. msg_Id (last msgs) < msg_Id m) table)))"

section \<open>The reply of \<open>handleStore\<close>, in the words of the spec\<close>

text \<open>
  The ids of the list that decode, without those the block store answers it has, each
  written back as a string, in the order of the input.
\<close>

definition needed_cids :: "'s TextileService \<Rightarrow> 's \<Rightarrow> string list \<Rightarrow> string list" where
  "needed_cids s st ids =
     map (cid_String s)
       (filter (\<lambda>c. Blockstore_Has s st c \<noteq> Inr True)
          (List.map_filter (\<lambda>i. case cid_Decode s i of Inl e \<Rightarrow> None | Inr c \<Rightarrow> Some c) ids))"

section \<open>A concrete service and outbox\<close>

text \<open>
  An instance of the collaborators of the service, on which the handlers and the
  flush are run at concrete inputs. The stores (thread registry, peer store, pointer
  store, block store) are lists. The codecs are toy wire formats: the first byte of a
  signed thread block names the thread and the second the block type; an envelope is
  the key byte, the tag of the message and the signature; a ciphertext is \<open>#\<close> and the
  plaintext; a signature is the key followed by the signed bytes. As the Ed25519 keys
  of libp2p do, \<open>demo_verify\<close> reports a signature that does not match as
  \<open>(false, nil)\<close>, with no error.
\<close>

record store =
  st_threads :: "Thread list"
  st_peers :: "Peer list"
  st_pointers :: "(peer_id \<times> Pointer) list"
  st_blocks :: "cid list"
  st_applied :: "(string \<times> string) list"

definition demo_signed :: "Any \<Rightarrow> error + SignedThreadBlock" where
  "demo_signed a =
     (case Value a of
        [] \<Rightarrow> Inl (Err ''unexpected EOF'')
      | t # d \<Rightarrow>
          Inr \<lparr>signed_Id = ''b1'', signed_ThreadId = [t], signed_ThreadName = [t],
               signed_IssuerPubKey = ''A'', signed_Data = d, signed_Signature = ''sig''\<rparr>)"

definition demo_block :: "bytes \<Rightarrow> error + ThreadBlock" where
  "demo_block d =
     (case d of
        [] \<Rightarrow> Inl (Err ''unexpected EOF'')
      | ty # target \<Rightarrow>
          Inr \<lparr>block_Type =
                 (if ty = CHR ''I'' then ThreadBlock_INVITE
                  else if ty = CHR ''P'' then ThreadBlock_PHOTO
                  else if ty = CHR ''C'' then ThreadBlock_COMMENT
                  else if ty = CHR ''L'' then ThreadBlock_LIKE
                  else ThreadBlock_OTHER 4),
               block_Target = target, block_TargetKey = ''#K'', block_Parents = []\<rparr>)"

definition demo_decrypt :: "privkey \<Rightarrow> bytes \<Rightarrow> error + bytes" where
  "demo_decrypt k c =
     (case c of
        [] \<Rightarrow> Inl (Err ''could not decrypt'')
      | h # p \<Rightarrow> if h = CHR ''#'' then Inr p else Inl (Err ''could not decrypt''))"

definition demo_message :: "char \<Rightarrow> Message" where
  "demo_message tag =
     (if tag = CHR ''p'' then \<lparr>MessageType = Message_PING, Payload = None\<rparr>
      else if tag = CHR ''s'' then
        \<lparr>MessageType = Message_STORE, Payload = Some \<lparr>TypeUrl = ''CidList'', Value = ''ABC''\<rparr>\<rparr>
      else \<lparr>MessageType = Message_OTHER 99, Payload = None\<rparr>)"

definition demo_envelope :: "bytes \<Rightarrow> error + Envelope" where
  "demo_envelope v =
     (case v of
        k # tag # sig \<Rightarrow>
          Inr \<lparr>env_Message = Some (demo_message tag), env_Pubkey = [k], env_Signature = sig\<rparr>
      | _ \<Rightarrow> Inl (Err ''unexpected EOF''))"

definition demo_marshal :: "Message option \<Rightarrow> error + bytes" where
  "demo_marshal m =
     (case m of
        None \<Rightarrow> Inl (Err ''proto: Marshal called with nil'')
      | Some msg \<Rightarrow>
          Inr (if MessageType msg = Message_PING then ''p''
               else if MessageType msg = Message_STORE then ''s'' else ''?''))"

definition demo_verify :: "pubkey \<Rightarrow> bytes \<Rightarrow> bytes \<Rightarrow> error + bool" where
  "demo_verify pk data sig = Inr (sig = pk @ data)"

definition demo_nonempty :: "bytes \<Rightarrow> error + bytes" where
  "demo_nonempty b = (if b = [] then Inl (Err ''empty input'') else Inr b)"

definition demo_cid_Decode :: "string \<Rightarrow> error + cid" where
  "demo_cid_Decode x = (if length x = 1 then Inr x else Inl (Err ''invalid cid''))"

definition demo_CidList :: "Any \<Rightarrow> error + CidList" where
  "demo_CidList a =
     (if TypeUrl a = ''CidList''
      then Inr \<lparr>Cids = map (\<lambda>c. if c = CHR ''-'' then [] else [c]) (Value a)\<rparr>
      else Inl (Err ''mismatched message type''))"

definition demo_getThread :: "store \<Rightarrow> string \<Rightarrow> Thread option" where
  "demo_getThread st i = find (\<lambda>t. thread_Id t = i) (st_threads st)"

definition demo_addThread :: "store \<Rightarrow> string \<Rightarrow> privkey \<Rightarrow> (error + Thread) \<times> store" where
  "demo_addThread st name sk =
     (Inr \<lparr>thread_Id = name, thread_Name = name, thread_Key = sk\<rparr>,
      st\<lparr>st_threads := st_threads st @ [\<lparr>thread_Id = name, thread_Name = name, thread_Key = sk\<rparr>]\<rparr>)"

definition demo_Pointers_Get :: "store \<Rightarrow> peer_id \<Rightarrow> error + Pointer" where
  "demo_Pointers_Get st p =
     (case map_of (st_pointers st) p of
        None \<Rightarrow> Inl (Err ''pointer not found'')
      | Some ptr \<Rightarrow> Inr ptr)"

definition demo_Pointers_Delete :: "store \<Rightarrow> peer_id \<Rightarrow> error option \<times> store" where
  "demo_Pointers_Delete st p =
     (None, st\<lparr>st_pointers := filter (\<lambda>e. fst e \<noteq> p) (st_pointers st)\<rparr>)"

definition demo :: "store TextileService" where
  "demo =
     \<lparr>self_Pretty = ''me'',
      node_PrivateKey = ''sk'',
      UnmarshalAny_SignedThreadBlock = demo_signed,
      Unmarshal_ThreadBlock = demo_block,
      getThread = demo_getThread,
      addThread = demo_addThread,
      Thread_Verify = (\<lambda>t. demo_verify (thread_Key t)),
      Thread_HandleBlock = (\<lambda>st t b. (None, st\<lparr>st_applied := st_applied st @ [(thread_Id t, b)]\<rparr>)),
      crypto_Decrypt = demo_decrypt,
      UnmarshalPrivateKey = demo_nonempty,
      GetPublic = (\<lambda>sk. sk),
      UnmarshalPublicKey = demo_nonempty,
      pubkey_Verify = demo_verify,
      pubkey_Bytes = Inr,
      IDFromPublicKey = Inr,
      IDB58Decode = demo_nonempty,
      Pretty = (\<lambda>p. p),
      ksuid_New = (\<lambda>st. ''row''),
      Peers_Add = (\<lambda>st p. (None, st\<lparr>st_peers := st_peers st @ [p]\<rparr>)),
      Pointers_Get = demo_Pointers_Get,
      Pointers_Delete = demo_Pointers_Delete,
      Unmarshal_Envelope = demo_envelope,
      Marshal_Message = demo_marshal,
      UnmarshalAny_Block = (\<lambda>a. Inr \<lparr>Cid = take 1 (Value a), RawData = drop 1 (Value a)\<rparr>),
      cid_Decode = demo_cid_Decode,
      cid_String = (\<lambda>c. c),
      NewBlockWithCid = (\<lambda>d c. Inr \<lparr>Cid = c, RawData = d\<rparr>),
      Blocks_AddBlock = (\<lambda>st b. (None, st\<lparr>st_blocks := st_blocks st @ [Cid b]\<rparr>)),
      Blockstore_Has = (\<lambda>st c. Inr (c \<in> set (st_blocks st))),
      UnmarshalAny_CidList = demo_CidList,
      MarshalAny_CidList = (\<lambda>l. Inr \<lparr>TypeUrl = ''CidList'', Value = concat (Cids l)\<rparr>),
      UnmarshalAny_Error = (\<lambda>a. Inr \<lparr>error_Message = Value a\<rparr>)\<rparr>"

text \<open>
  The state: one thread \<open>1\<close> with key \<open>K\<close>; pointers for \<open>alice\<close> (her own to cancel), for
  \<open>bob\<close> (for \<open>carol\<close> to cancel) and for \<open>dave\<close> (nobody's); the block \<open>B\<close>.
\<close>

definition demo_store :: store where
  "demo_store =
     \<lparr>st_threads = [\<lparr>thread_Id = ''1'', thread_Name = ''one'', thread_Key = ''K''\<rparr>],
      st_peers = [],
      st_pointers =
        [(''alice'', \<lparr>CancelId = Some ''alice''\<rparr>), (''bob'', \<lparr>CancelId = Some ''carol''\<rparr>),
         (''dave'', \<lparr>CancelId = None\<rparr>)],
      st_blocks = [''B''],
      st_applied = []\<rparr>"

definition demo_any :: "bytes \<Rightarrow> Any" where
  "demo_any v = \<lparr>TypeUrl = [], Value = v\<rparr>"

definition thread_block_message :: "bytes \<Rightarrow> Message" where
  "thread_block_message v = \<lparr>MessageType = Message_THREAD_BLOCK, Payload = Some (demo_any v)\<rparr>"

definition relay_message :: "bytes \<Rightarrow> Message" where
  "relay_message v = \<lparr>MessageType = Message_OFFLINE_RELAY, Payload = Some (demo_any v)\<rparr>"

definition ack_message :: "bytes \<Rightarrow> Message" where
  "ack_message v = \<lparr>MessageType = Message_OFFLINE_ACK, Payload = Some (demo_any v)\<rparr>"

definition ping_message :: Message where
  "ping_message = \<lparr>MessageType = Message_PING, Payload = None\<rparr>"

definition store_message :: "Any option \<Rightarrow> Message" where
  "store_message a = \<lparr>MessageType = Message_STORE, Payload = a\<rparr>"

definition cid_list_any :: "bytes \<Rightarrow> Any" where
  "cid_list_any v = \<lparr>TypeUrl = ''CidList'', Value = v\<rparr>"

text \<open>
  The outbox: the service is there but offline, nobody is connected, \<open>P1\<close> has the inbox
  \<open>I1\<close> and no other peer has one; the cafe outbox and the datastore never fail.
  \<open>demo_outbox_quiet\<close> is for pages without race. In \<open>demo_outbox\<close> a race between two
  goroutines goes by the schedule in which both read \<open>toDelete\<close> before either stores.
\<close>

definition demo_outbox_quiet :: BlockOutbox where
  "demo_outbox_quiet =
     \<lparr>service_is_nil = False,
      service_online = False,
      SwarmConnected = (\<lambda>p. Inr False),
      SendMessage = (\<lambda>p e. None),
      Peers_Get = (\<lambda>p. if p = ''P1'' then Some \<lparr>contact_Id = ''P1'', Inboxes = [''I1'']\<rparr> else None),
      AddForInbox = (\<lambda>p e inboxes. None),
      Delete_error = (\<lambda>i. None),
      race_outcome = (\<lambda>page. None)\<rparr>"

definition demo_outbox :: BlockOutbox where
  "demo_outbox =
     demo_outbox_quiet
       \<lparr>race_outcome :=
          (\<lambda>page. Some (interleave [0, 1, 0, 1]
                          (map (\<lambda>(i, g). worker demo_outbox_quiet i g)
                             (foldl group_add [] page))))\<rparr>"

definition demo_env :: Envelope where
  "demo_env = \<lparr>env_Message = Some ping_message, env_Pubkey = ''A'', env_Signature = ''Ap''\<rparr>"

definition demo_msg :: "string \<Rightarrow> string \<Rightarrow> BlockMessage" where
  "demo_msg i p = \<lparr>msg_Id = i, msg_Peer = p, msg_Env = demo_env, msg_Date = 0\<rparr>"

text \<open>Two queues: messages for \<open>P2\<close> alone, and one message for each of \<open>P1\<close> and \<open>P2\<close>.\<close>

definition demo_queue_P2 :: "BlockMessage list" where
  "demo_queue_P2 = [demo_msg ''3'' ''P2'', demo_msg ''2'' ''P2'']"

definition demo_queue :: "BlockMessage list" where
  "demo_queue = [demo_msg ''2'' ''P2'', demo_msg ''1'' ''P1'']"

section \<open>Lemmas on the handlers\<close>

lemma store_need_eq: "store_need s st ids need = need @ needed_cids s st ids"
  by (induction ids arbitrary: need)
     (auto simp: needed_cids_def List.map_filter_simps split: sum.splits)

lemma demo_sel:
  "self_Pretty demo = ''me''"
  "node_PrivateKey demo = ''sk''"
  "UnmarshalAny_SignedThreadBlock demo = demo_signed"
  "Unmarshal_ThreadBlock demo = demo_block"
  "getThread demo = demo_getThread"
  "Thread_Verify demo = (\<lambda>t. demo_verify (thread_Key t))"
  "crypto_Decrypt demo = demo_decrypt"
  "UnmarshalPublicKey demo = demo_nonempty"
  "pubkey_Verify demo = demo_verify"
  "IDFromPublicKey demo = Inr"
  "IDB58Decode demo = demo_nonempty"
  "Pretty demo = (\<lambda>p. p)"
  "Pointers_Get demo = demo_Pointers_Get"
  "Pointers_Delete demo = demo_Pointers_Delete"
  "Unmarshal_Envelope demo = demo_envelope"
  "Marshal_Message demo = demo_marshal"
  "cid_Decode demo = demo_cid_Decode"
  "cid_String demo = (\<lambda>c. c)"
  "Blockstore_Has demo = (\<lambda>st c. Inr (c \<in> set (st_blocks st)))"
  "UnmarshalAny_CidList demo = demo_CidList"
  "MarshalAny_CidList demo = (\<lambda>l. Inr \<lparr>TypeUrl = ''CidList'', Value = concat (Cids l)\<rparr>)"
  by (simp_all add: demo_def)

lemma demo_thread_block:
  "Payload (thread_block_message (t # d)) = Some (demo_any (t # d))"
  "UnmarshalAny_SignedThreadBlock demo (demo_any (t # d)) =
     Inr \<lparr>signed_Id = ''b1'', signed_ThreadId = [t], signed_ThreadName = [t],
          signed_IssuerPubKey = ''A'', signed_Data = d, signed_Signature = ''sig''\<rparr>"
  by (simp_all add: thread_block_message_def demo_any_def demo_sel demo_signed_def)

lemma demo_getThread_store:
  "getThread demo demo_store ''1'' = Some \<lparr>thread_Id = ''1'', thread_Name = ''one'', thread_Key = ''K''\<rparr>"
  "getThread demo demo_store ''9'' = None"
  by (simp_all add: demo_sel demo_getThread_def demo_store_def)

text \<open>
  A signature that the key reports as not matching, with no error of its own, ends
  \<open>handleOfflineRelay\<close> with \<open>(nil, nil)\<close> and the state untouched.
\<close>

lemma handleOfflineRelay_invalid_signature:
  assumes "Payload pmes = Some payload"
      and "crypto_Decrypt s (node_PrivateKey s) (Value payload) = Inr plaintext"
      and "Unmarshal_Envelope s plaintext = Inr env"
      and "Marshal_Message s (env_Message env) = Inr ser"
      and "UnmarshalPublicKey s (env_Pubkey env) = Inr pubkey"
      and "pubkey_Verify s pubkey ser (env_Signature env) = Inr False"
  shows "handleOfflineRelay (Suc n) s st pid pmes options = Some ((None, None), st)"
  using assms by simp

text \<open>
  A block of a type that is none of the four, for a thread that is not tracked, reaches
  the final call with a nil thread.
\<close>

lemma handleThreadBlock_OTHER_absent:
  assumes "Payload pmes = Some payload"
      and "UnmarshalAny_SignedThreadBlock s payload = Inr signed"
      and "Unmarshal_ThreadBlock s (signed_Data signed) = Inr block"
      and "block_Type block = ThreadBlock_OTHER t"
      and "getThread s st (signed_ThreadId signed) = None"
  shows "handleThreadBlock s st pid pmes options = ((None, Some NilPointerDereference), st)"
  using assms by (simp add: handleThreadBlock_def thrd_HandleBlock_def)

lemma handleOfflineRelay_reply_nil:
  "handleOfflineRelay k s st pid pmes options = Some ((r, e), t) \<Longrightarrow> r = None"
  by (cases k) (auto split: option.splits sum.splits if_splits prod.splits)

section \<open>Claims on the handlers\<close>

text \<open>
  C1. The claim: when the signature of the inner envelope of an OfflineRelay message
  does not verify, \<open>handleOfflineRelay\<close> returns an error and does not dispatch the inner
  message. The source tests \<open>err != nil || !valid\<close> and then returns \<open>nil, err\<close>: when
  the key reports the mismatch as \<open>(false, nil)\<close> the error returned is nil. The run
  below is that case: the payload decrypts to an envelope of the key \<open>A\<close> around a ping,
  the signature \<open>Ax\<close> is not the signature \<open>Ap\<close> of the ping, and the handler returns
  \<open>(nil, nil)\<close>, which its caller reads as success. The inner message is not dispatched
  (the state is the one given). Lemma \<open>handleOfflineRelay_invalid_signature\<close> is the
  same fact for every service and message.
\<close>

theorem handleOfflineRelay_bad_signature_returns_nil:
  "crypto_Decrypt demo (node_PrivateKey demo) ''#ApAx'' = Inr ''ApAx''
   \<and> Unmarshal_Envelope demo ''ApAx'' =
       Inr \<lparr>env_Message = Some ping_message, env_Pubkey = ''A'', env_Signature = ''Ax''\<rparr>
   \<and> Marshal_Message demo (Some ping_message) = Inr ''p''
   \<and> pubkey_Verify demo ''A'' ''p'' ''Ax'' = Inr False
   \<and> handleOfflineRelay (Suc 0) demo demo_store ''relay'' (relay_message ''#ApAx'') False
       = Some ((None, None), demo_store)"
  by (simp add: relay_message_def demo_any_def demo_sel demo_decrypt_def demo_envelope_def
        demo_message_def demo_marshal_def demo_nonempty_def demo_verify_def ping_message_def)

text \<open>
  C3. The claim: whenever \<open>handleThreadBlock\<close> reaches its final call
  \<open>thrd.HandleBlock(signed.Id)\<close>, the thread is not nil. The switch has no \<open>default\<close>
  case, so a block whose type is none of the four falls through to the call with
  whatever \<open>getThread\<close> returned. The run below is a block of type 4 for the thread
  \<open>9\<close>, which is not tracked: the call is made on the nil thread. Lemma
  \<open>handleThreadBlock_OTHER_absent\<close> is the same fact for every service and message.
\<close>

theorem handleThreadBlock_other_type_nil_thread:
  "Unmarshal_ThreadBlock demo ''X'' =
       Inr \<lparr>block_Type = ThreadBlock_OTHER 4, block_Target = [], block_TargetKey = ''#K'',
            block_Parents = []\<rparr>
   \<and> getThread demo demo_store ''9'' = None
   \<and> handleThreadBlock demo demo_store ''alice'' (thread_block_message ''9X'') False
       = ((None, Some NilPointerDereference), demo_store)"
  by (simp add: handleThreadBlock_def thread_block_message_def demo_any_def demo_sel
        demo_signed_def demo_block_def demo_getThread_def demo_store_def thrd_HandleBlock_def)

text \<open>
  C4, as the claim states it: every INVITE whose target is not this peer fails with
  the invalid-invite-target error. The thread check comes first in the source: the
  INVITE below is for \<open>bob\<close> (this peer is \<open>me\<close>) and for the thread \<open>1\<close>, which is tracked,
  and it fails with the thread-exists error.
\<close>

theorem handleThreadBlock_INVITE_target_counterexample:
  "Unmarshal_ThreadBlock demo ''Ibob'' =
       Inr \<lparr>block_Type = ThreadBlock_INVITE, block_Target = ''bob'', block_TargetKey = ''#K'',
            block_Parents = []\<rparr>
   \<and> ''bob'' \<noteq> self_Pretty demo
   \<and> handleThreadBlock demo demo_store ''alice'' (thread_block_message ''1Ibob'') False
       \<noteq> ((None, Some (Err ''invalid invite target'')), demo_store)
   \<and> handleThreadBlock demo demo_store ''alice'' (thread_block_message ''1Ibob'') False
       = ((None, Some (Err ''thread exists'')), demo_store)"
  by (simp add: handleThreadBlock_def handleThreadBlock_INVITE_def thread_block_message_def
        demo_any_def demo_sel demo_signed_def demo_block_def demo_getThread_def demo_store_def)

text \<open>
  C4, amended. For every INVITE thread block: when its thread id resolves to a tracked
  thread, \<open>handleThreadBlock\<close> fails with the thread-exists error and the state (threads
  and peer records) is the one given; when its thread id does not resolve and its
  target is not this peer's own identifier, it fails with the invalid-invite-target
  error, the state again unchanged.
\<close>

theorem handleThreadBlock_INVITE_guards:
  assumes "Payload pmes = Some payload"
      and "UnmarshalAny_SignedThreadBlock s payload = Inr signed"
      and "Unmarshal_ThreadBlock s (signed_Data signed) = Inr block"
      and "block_Type block = ThreadBlock_INVITE"
  shows "(getThread s st (signed_ThreadId signed) \<noteq> None \<longrightarrow>
            handleThreadBlock s st pid pmes options = ((None, Some (Err ''thread exists'')), st))
       \<and> (getThread s st (signed_ThreadId signed) = None \<and> block_Target block \<noteq> self_Pretty s \<longrightarrow>
            handleThreadBlock s st pid pmes options =
              ((None, Some (Err ''invalid invite target'')), st))"
  using assms
  by (auto simp: handleThreadBlock_def handleThreadBlock_INVITE_def Let_def)

theorem handleThreadBlock_INVITE_guards_witness:
  "Payload (thread_block_message ''9Ibob'') = Some (demo_any ''9Ibob'')
   \<and> getThread demo demo_store ''9'' = None
   \<and> ''bob'' \<noteq> self_Pretty demo
   \<and> handleThreadBlock demo demo_store ''alice'' (thread_block_message ''9Ibob'') False
       = ((None, Some (Err ''invalid invite target'')), demo_store)"
proof -
  let ?signed = "\<lparr>signed_Id = ''b1'', signed_ThreadId = ''9'', signed_ThreadName = ''9'',
      signed_IssuerPubKey = ''A'', signed_Data = ''Ibob'', signed_Signature = ''sig''\<rparr>"
  let ?block = "\<lparr>block_Type = ThreadBlock_INVITE, block_Target = ''bob'',
      block_TargetKey = ''#K'', block_Parents = []\<rparr>"
  have h1: "Payload (thread_block_message ''9Ibob'') = Some (demo_any ''9Ibob'')"
    by (rule demo_thread_block)
  have h2: "UnmarshalAny_SignedThreadBlock demo (demo_any ''9Ibob'') = Inr ?signed"
    by (rule demo_thread_block)
  have h3: "Unmarshal_ThreadBlock demo (signed_Data ?signed) = Inr ?block"
    by (simp add: demo_sel demo_block_def)
  have h4: "block_Type ?block = ThreadBlock_INVITE" by simp
  have absent: "getThread demo demo_store ''9'' = None" by (rule demo_getThread_store)
  have other: "''bob'' \<noteq> self_Pretty demo" by (simp add: demo_sel)
  from handleThreadBlock_INVITE_guards[OF h1 h2 h3 h4, of demo_store "''alice''" False]
  have "handleThreadBlock demo demo_store ''alice'' (thread_block_message ''9Ibob'') False
          = ((None, Some (Err ''invalid invite target'')), demo_store)"
    using absent other by simp
  with h1 absent other show ?thesis by simp
qed

text \<open>
  C5. For an OfflineAck message whose payload decodes to a peer id, and a sender \<open>pid\<close>
  with a pointer in the store: when the pointer's \<open>CancelId\<close> is the sender, the handler
  asks the store to delete the sender's pointer and returns what the deletion returns;
  for any other \<open>CancelId\<close>, nil included, it returns the not-authorized error and the
  store is the one given. (\<open>Pretty\<close>, the base58 text of a peer id, is one-to-one.)
\<close>

theorem handleOfflineAck_authorized_iff:
  assumes "Payload pmes = Some payload"
      and "IDB58Decode s (Value payload) = Inr decoded"
      and "Pointers_Get s st pid = Inr pointer"
      and "inj (Pretty s)"
  shows "handleOfflineAck s st pid pmes options =
           (if CancelId pointer = Some pid
            then (case Pointers_Delete s st pid of (e, st') \<Rightarrow> ((None, e), st'))
            else ((None, Some (Err ''peer is not authorized to delete pointer'')), st))"
  using assms
  by (auto simp: handleOfflineAck_def inj_eq split: option.splits prod.splits)

theorem handleOfflineAck_authorized_iff_witness:
  "Pointers_Get demo demo_store ''alice'' = Inr \<lparr>CancelId = Some ''alice''\<rparr>
   \<and> Pointers_Get demo demo_store ''bob'' = Inr \<lparr>CancelId = Some ''carol''\<rparr>
   \<and> inj (Pretty demo)
   \<and> handleOfflineAck demo demo_store ''alice'' (ack_message ''alice'') False
       = ((None, None),
          demo_store\<lparr>st_pointers :=
            [(''bob'', \<lparr>CancelId = Some ''carol''\<rparr>), (''dave'', \<lparr>CancelId = None\<rparr>)]\<rparr>)
   \<and> handleOfflineAck demo demo_store ''bob'' (ack_message ''bob'') False
       = ((None, Some (Err ''peer is not authorized to delete pointer'')), demo_store)"
proof -
  have a1: "Payload (ack_message ''alice'') = Some (demo_any ''alice'')"
    and b1: "Payload (ack_message ''bob'') = Some (demo_any ''bob'')"
    by (simp_all add: ack_message_def)
  have a2: "IDB58Decode demo (Value (demo_any ''alice'')) = Inr ''alice''"
    and b2: "IDB58Decode demo (Value (demo_any ''bob'')) = Inr ''bob''"
    by (simp_all add: demo_sel demo_any_def demo_nonempty_def)
  have a3: "Pointers_Get demo demo_store ''alice'' = Inr \<lparr>CancelId = Some ''alice''\<rparr>"
    and b3: "Pointers_Get demo demo_store ''bob'' = Inr \<lparr>CancelId = Some ''carol''\<rparr>"
    by (simp_all add: demo_sel demo_Pointers_Get_def demo_store_def)
  have h4: "inj (Pretty demo)" by (simp add: demo_sel inj_def)
  have a: "handleOfflineAck demo demo_store ''alice'' (ack_message ''alice'') False
       = ((None, None),
          demo_store\<lparr>st_pointers :=
            [(''bob'', \<lparr>CancelId = Some ''carol''\<rparr>), (''dave'', \<lparr>CancelId = None\<rparr>)]\<rparr>)"
    using handleOfflineAck_authorized_iff[OF a1 a2 a3 h4, of False]
    by (simp add: demo_sel demo_Pointers_Delete_def demo_store_def)
  have b: "handleOfflineAck demo demo_store ''bob'' (ack_message ''bob'') False
       = ((None, Some (Err ''peer is not authorized to delete pointer'')), demo_store)"
    using handleOfflineAck_authorized_iff[OF b1 b2 b3 h4, of False] by simp
  from a3 b3 h4 a b show ?thesis by simp
qed

text \<open>
  C6. For every PHOTO thread block: when its thread id does not resolve to a tracked
  thread the handler returns the thread-not-found error; when it resolves, the
  signature is checked by that thread's own \<open>Verify\<close>, anything but a clean \<open>true\<close> gives
  the bad-signature error, and only a verified block reaches \<open>HandleBlock\<close>.
\<close>

theorem handleThreadBlock_PHOTO:
  assumes "Payload pmes = Some payload"
      and "UnmarshalAny_SignedThreadBlock s payload = Inr signed"
      and "Unmarshal_ThreadBlock s (signed_Data signed) = Inr block"
      and "block_Type block = ThreadBlock_PHOTO"
  shows "handleThreadBlock s st pid pmes options =
           (case getThread s st (signed_ThreadId signed) of
              None \<Rightarrow> ((None, Some (Err ''thread not found'')), st)
            | Some t \<Rightarrow>
                if Thread_Verify s t (signed_Data signed) (signed_Signature signed) = Inr True
                then thrd_HandleBlock s st (Some t) (signed_Id signed)
                else ((None, Some (Err ''bad signature'')), st))"
  using assms
  by (auto simp: handleThreadBlock_def Let_def split: option.splits sum.splits)

theorem handleThreadBlock_PHOTO_witness:
  "getThread demo demo_store ''9'' = None
   \<and> handleThreadBlock demo demo_store ''alice'' (thread_block_message ''9P'') False
       = ((None, Some (Err ''thread not found'')), demo_store)
   \<and> Thread_Verify demo \<lparr>thread_Id = ''1'', thread_Name = ''one'', thread_Key = ''K''\<rparr> ''P'' ''sig''
       = Inr False
   \<and> handleThreadBlock demo demo_store ''alice'' (thread_block_message ''1P'') False
       = ((None, Some (Err ''bad signature'')), demo_store)"
proof -
  let ?block = "\<lparr>block_Type = ThreadBlock_PHOTO, block_Target = [],
      block_TargetKey = ''#K'', block_Parents = []\<rparr>"
  have h3: "Unmarshal_ThreadBlock demo ''P'' = Inr ?block"
    by (simp add: demo_sel demo_block_def)
  have h4: "block_Type ?block = ThreadBlock_PHOTO" by simp
  have v: "Thread_Verify demo \<lparr>thread_Id = ''1'', thread_Name = ''one'', thread_Key = ''K''\<rparr> ''P'' ''sig''
       = Inr False"
    by (simp add: demo_sel demo_verify_def)
  have a: "handleThreadBlock demo demo_store ''alice'' (thread_block_message ''9P'') False
       = ((None, Some (Err ''thread not found'')), demo_store)"
    using handleThreadBlock_PHOTO[OF demo_thread_block(1) demo_thread_block(2) _ h4,
        of "CHR ''9''" "''P''" demo_store "''alice''" False]
    by (simp add: h3 demo_getThread_store)
  have b: "handleThreadBlock demo demo_store ''alice'' (thread_block_message ''1P'') False
       = ((None, Some (Err ''bad signature'')), demo_store)"
    using handleThreadBlock_PHOTO[OF demo_thread_block(1) demo_thread_block(2) _ h4,
        of "CHR ''1''" "''P''" demo_store "''alice''" False]
    by (simp add: h3 demo_getThread_store v)
  from a b v demo_getThread_store(2) show ?thesis by simp
qed


text \<open>
  C7, as the claim states it: for every message type that has a handler, PING
  included, a message with a nil payload is rejected with the empty-payload error and
  gets no reply. \<open>handlePing\<close> never looks at the payload: the ping below has none, and
  it is echoed with no error.
\<close>

theorem handlePing_nil_payload_counterexample:
  "Payload ping_message = None
   \<and> HandlerForMsgType (MessageType ping_message) = Some H_handlePing
   \<and> call_handler 0 demo H_handlePing demo_store ''alice'' ping_message False
       = Some ((Some ping_message, None), demo_store)"
  by (simp add: ping_message_def handlePing_def)

text \<open>
  C7, amended. For every message type that has a handler, other than PING, a message
  whose payload is nil is rejected with the error \<open>payload is nil\<close>, gets no reply and
  leaves the state as it is; a PING with a nil payload is echoed back unchanged.
\<close>

theorem nil_payload_rejected_except_ping:
  assumes "Payload pmes = None"
      and "HandlerForMsgType (MessageType pmes) = Some h"
  shows "call_handler (Suc n) s h st pid pmes options =
           Some (if MessageType pmes = Message_PING then ((Some pmes, None), st)
                 else ((None, Some (Err ''payload is nil'')), st))"
  using assms
  by (cases "MessageType pmes")
     (auto simp: handlePing_def handleThreadBlock_def handleOfflineAck_def handleBlock_def
        handleStore_def handleError_def)

theorem nil_payload_rejected_except_ping_witness:
  "Payload (store_message None) = None
   \<and> HandlerForMsgType (MessageType (store_message None)) = Some H_handleStore
   \<and> call_handler (Suc 0) demo H_handleStore demo_store ''alice'' (store_message None) False
       = Some ((None, Some (Err ''payload is nil'')), demo_store)"
proof -
  have h1: "Payload (store_message None) = None" by (simp add: store_message_def)
  have h2: "HandlerForMsgType (MessageType (store_message None)) = Some H_handleStore"
    by (simp add: store_message_def)
  have "MessageType (store_message None) \<noteq> Message_PING" by (simp add: store_message_def)
  with nil_payload_rejected_except_ping[OF h1 h2, of 0 demo demo_store "''alice''" False]
  have "call_handler (Suc 0) demo H_handleStore demo_store ''alice'' (store_message None) False
       = Some ((None, Some (Err ''payload is nil'')), demo_store)"
    by simp
  with h1 h2 show ?thesis by simp
qed

text \<open>
  C8. For a STORE message with a payload: when the payload decodes to a cid list, the
  reply is a STORE message carrying \<open>needed_cids\<close> of the list, that is the ids that
  decode and that the block store does not answer it has, in the order of the input,
  with no error (the reply is what \<open>MarshalAny\<close> makes of that list); an id that does
  not decode is left out and nothing fails. When the payload does not decode, the
  reply is a message of type ERROR, returned with the decoder's error.
\<close>

theorem handleStore_reply:
  assumes "Payload pmes = Some payload"
  shows "(UnmarshalAny_CidList s payload = Inr cList \<and>
          MarshalAny_CidList s \<lparr>Cids = needed_cids s st (Cids cList)\<rparr> = Inr payload' \<longrightarrow>
            handleStore s st pid pmes options =
              ((Some \<lparr>MessageType = Message_STORE, Payload = Some payload'\<rparr>, None), st))
       \<and> (UnmarshalAny_CidList s payload = Inl e \<longrightarrow>
            handleStore s st pid pmes options =
              ((Some (errorResponse ''could not unmarshall message''), Some e), st)
            \<and> MessageType (errorResponse ''could not unmarshall message'') = Message_ERROR)"
  using assms by (auto simp: handleStore_def store_need_eq errorResponse_def)

theorem handleStore_reply_witness:
  "UnmarshalAny_CidList demo (cid_list_any ''A-BC'') = Inr \<lparr>Cids = [''A'', [], ''B'', ''C'']\<rparr>
   \<and> Blockstore_Has demo demo_store ''A'' = Inr False
   \<and> Blockstore_Has demo demo_store ''B'' = Inr True
   \<and> Blockstore_Has demo demo_store ''C'' = Inr False
   \<and> needed_cids demo demo_store [''A'', [], ''B'', ''C''] = [''A'', ''C'']
   \<and> handleStore demo demo_store ''alice'' (store_message (Some (cid_list_any ''A-BC''))) False
       = ((Some (store_message (Some (cid_list_any ''AC''))), None), demo_store)"
proof -
  have h1: "Payload (store_message (Some (cid_list_any ''A-BC''))) = Some (cid_list_any ''A-BC'')"
    by (simp add: store_message_def)
  have h2: "UnmarshalAny_CidList demo (cid_list_any ''A-BC'') = Inr \<lparr>Cids = [''A'', [], ''B'', ''C'']\<rparr>"
    by (simp add: demo_sel demo_CidList_def cid_list_any_def)
  have has: "Blockstore_Has demo demo_store ''A'' = Inr False"
    "Blockstore_Has demo demo_store ''B'' = Inr True"
    "Blockstore_Has demo demo_store ''C'' = Inr False"
    by (simp_all add: demo_sel demo_store_def)
  have need: "needed_cids demo demo_store [''A'', [], ''B'', ''C''] = [''A'', ''C'']"
    by (simp add: needed_cids_def List.map_filter_simps demo_sel demo_cid_Decode_def demo_store_def)
  have h3: "MarshalAny_CidList demo \<lparr>Cids = needed_cids demo demo_store (Cids \<lparr>Cids = [''A'', [], ''B'', ''C'']\<rparr>)\<rparr>
      = Inr (cid_list_any ''AC'')"
    by (simp add: need demo_sel cid_list_any_def)
  from handleStore_reply[OF h1, of demo "\<lparr>Cids = [''A'', [], ''B'', ''C'']\<rparr>" demo_store
      "cid_list_any ''AC''" "''alice''" False] h2 h3
  have "handleStore demo demo_store ''alice'' (store_message (Some (cid_list_any ''A-BC''))) False
       = ((Some (store_message (Some (cid_list_any ''AC''))), None), demo_store)"
    by (simp add: store_message_def)
  with h2 has need show ?thesis by simp
qed

text \<open>
  C10. For an OfflineRelay message that is authenticated (the payload decrypts and
  decodes to an envelope, the signature verifies over the serialized inner message,
  the sender id derives from the key) and whose inner message has a handler: the
  inner handler runs, its error and its state are returned, and its reply is dropped,
  so the reply of \<open>handleOfflineRelay\<close> is nil. More generally, whatever
  \<open>handleOfflineRelay\<close> returns, its reply is nil.
\<close>

theorem handleOfflineRelay_discards_reply:
  assumes "Payload pmes = Some payload"
      and "crypto_Decrypt s (node_PrivateKey s) (Value payload) = Inr plaintext"
      and "Unmarshal_Envelope s plaintext = Inr env"
      and "env_Message env = Some inner"
      and "Marshal_Message s (Some inner) = Inr ser"
      and "UnmarshalPublicKey s (env_Pubkey env) = Inr pubkey"
      and "pubkey_Verify s pubkey ser (env_Signature env) = Inr True"
      and "IDFromPublicKey s pubkey = Inr sender"
      and "HandlerForMsgType (MessageType inner) = Some h"
      and "call_handler n s h st sender inner True = Some ((reply, err), st')"
  shows "handleOfflineRelay (Suc n) s st pid pmes options = Some ((None, err), st')
       \<and> (\<forall>k r e t. handleOfflineRelay k s st pid pmes options = Some ((r, e), t) \<longrightarrow> r = None)"
proof
  show "handleOfflineRelay (Suc n) s st pid pmes options = Some ((None, err), st')"
    using assms by (cases err) auto
  show "\<forall>k r e t. handleOfflineRelay k s st pid pmes options = Some ((r, e), t) \<longrightarrow> r = None"
    by (auto dest: handleOfflineRelay_reply_nil)
qed

theorem handleOfflineRelay_discards_reply_witness:
  "pubkey_Verify demo ''A'' ''p'' ''Ap'' = Inr True
   \<and> call_handler 0 demo H_handlePing demo_store ''A'' ping_message True
       = Some ((Some ping_message, None), demo_store)
   \<and> handleOfflineRelay (Suc 0) demo demo_store ''relay'' (relay_message ''#ApAp'') False
       = Some ((None, None), demo_store)"
proof -
  let ?env = "\<lparr>env_Message = Some ping_message, env_Pubkey = ''A'', env_Signature = ''Ap''\<rparr>"
  have h1: "Payload (relay_message ''#ApAp'') = Some (demo_any ''#ApAp'')"
    by (simp add: relay_message_def)
  have h2: "crypto_Decrypt demo (node_PrivateKey demo) (Value (demo_any ''#ApAp'')) = Inr ''ApAp''"
    by (simp add: demo_sel demo_any_def demo_decrypt_def)
  have h3: "Unmarshal_Envelope demo ''ApAp'' = Inr ?env"
    by (simp add: demo_sel demo_envelope_def demo_message_def ping_message_def)
  have h4: "env_Message ?env = Some ping_message" by simp
  have h5: "Marshal_Message demo (Some ping_message) = Inr ''p''"
    by (simp add: demo_sel demo_marshal_def ping_message_def)
  have h6: "UnmarshalPublicKey demo (env_Pubkey ?env) = Inr ''A''"
    by (simp add: demo_sel demo_nonempty_def)
  have h7: "pubkey_Verify demo ''A'' ''p'' (env_Signature ?env) = Inr True"
    by (simp add: demo_sel demo_verify_def)
  have h8: "IDFromPublicKey demo ''A'' = Inr ''A''" by (simp add: demo_sel)
  have h9: "HandlerForMsgType (MessageType ping_message) = Some H_handlePing"
    by (simp add: ping_message_def)
  have h10: "call_handler 0 demo H_handlePing demo_store ''A'' ping_message True
       = Some ((Some ping_message, None), demo_store)"
    by (simp add: handlePing_def)
  from handleOfflineRelay_discards_reply[OF h1 h2 h3 h4 h5 h6 h7 h8 h9 h10, of "''relay''" False]
  have "handleOfflineRelay (Suc 0) demo demo_store ''relay'' (relay_message ''#ApAp'') False
       = Some ((None, None), demo_store)"
    by (rule conjunct1)
  with h7 h10 show ?thesis by simp
qed


section \<open>Lemmas on the outbox\<close>

lemma delete_all_eq:
  "delete_all q table ids =
     filter (\<lambda>m. \<not> (msg_Id m \<in> set ids \<and> Delete_error q (msg_Id m) = None)) table"
proof (induction ids arbitrary: table)
  case Nil
  then show ?case by simp
next
  case (Cons i ids)
  show ?case
  proof (cases "Delete_error q i")
    case None
    then show ?thesis
      by (auto simp: BlockMessages_Delete_def Cons.IH intro!: filter_cong)
  next
    case (Some e)
    then show ?thesis
      by (auto simp: BlockMessages_Delete_def Cons.IH intro!: filter_cong)
  qed
qed

lemma filter_length_less:
  assumes "x \<in> set xs" "P x" "\<not> Q x" "\<And>y. Q y \<Longrightarrow> P y"
  shows "length (filter Q xs) < length (filter P xs)"
proof -
  have "filter Q xs = filter Q (filter P xs)"
    using assms(4) by (auto intro!: filter_cong)
  moreover have "length (filter Q (filter P xs)) < length (filter P xs)"
    using assms(1-3) by (intro length_filter_less[of x]) auto
  ultimately show ?thesis by simp
qed

lemma length_filter_filter_le: "length (filter Q (filter R xs)) \<le> length (filter Q xs)"
  by (induction xs) auto

lemma length_filter_mono:
  "(\<And>x. x \<in> set xs \<Longrightarrow> P x \<Longrightarrow> Q x) \<Longrightarrow> length (filter P xs) \<le> length (filter Q xs)"
  by (induction xs) auto

lemma length_filter_key_le_1:
  "distinct (map fst xs) \<Longrightarrow> length (filter (\<lambda>x. fst x = k) xs) \<le> 1"
proof (induction xs)
  case Nil
  then show ?case by simp
next
  case (Cons x xs)
  show ?case
  proof (cases "fst x = k")
    case True
    with Cons.prems have "k \<notin> fst ` set xs" by auto
    then have "filter (\<lambda>x. fst x = k) xs = []" by (auto simp: filter_empty_conv)
    with True show ?thesis by simp
  next
    case False
    with Cons show ?thesis by simp
  qed
qed

lemma List_member:
  "m \<in> set (BlockMessages_List table offset limit) \<Longrightarrow> m \<in> set table \<and> offset < msg_Id m"
  by (auto simp: BlockMessages_List_def dest!: in_set_takeD)

lemma batch_page_Some:
  assumes "batch_page q table msgs = Some (table', next)"
  shows "\<exists>toDelete. go_workers q (foldl group_add [] msgs) msgs = Some toDelete
           \<and> table' = delete_all q table toDelete"
    and "next = BlockMessages_List table (msg_Id (last msgs)) blockFlushGroupSize"
  using assms by (auto simp: batch_page_def Let_def split: option.splits)

text \<open>
  Whatever the goroutines leave in \<open>toDelete\<close>, a call of \<open>batch\<close> on a non-empty page
  that does not crash leaves less for the next call.
\<close>

lemma batch_page_decreases:
  assumes "msgs \<noteq> []" "batch_page q table msgs = Some (table', next)"
  shows "pending_after table' next < pending_after table msgs"
proof (cases "next = []")
  case True
  then show ?thesis using assms by (simp add: pending_after_def)
next
  case False
  let ?off = "msg_Id (last msgs)"
  from batch_page_Some(1)[OF assms(2)] obtain toDelete
    where tab: "table' = delete_all q table toDelete" by blast
  note nxt = batch_page_Some(2)[OF assms(2)]
  have "last next \<in> set next" using False by simp
  then have mem: "last next \<in> set table" and gt: "?off < msg_Id (last next)"
    using List_member nxt by blast+
  have "length (filter (\<lambda>m. msg_Id (last next) < msg_Id m) table')
          \<le> length (filter (\<lambda>m. msg_Id (last next) < msg_Id m) table)"
    unfolding tab delete_all_eq by (rule length_filter_filter_le)
  also have "\<dots> < length (filter (\<lambda>m. ?off < msg_Id m) table)"
    using mem gt by (intro filter_length_less[of "last next"]) auto
  finally show ?thesis using False assms(1) by (simp add: pending_after_def)
qed

termination batch
  by (relation "measure (\<lambda>(q, table, msgs). pending_after table msgs)")
     (auto intro: batch_page_decreases)

declare batch.simps [simp del]

lemma batch_Nil: "batch q table [] = Returned table"
  by (subst batch.simps) simp

lemma batch_step:
  "msgs \<noteq> [] \<Longrightarrow> batch_page q table msgs = Some (table', next) \<Longrightarrow>
     batch q table msgs = batch q table' next"
  by (subst batch.simps) simp

lemma batch_crash:
  "msgs \<noteq> [] \<Longrightarrow> batch_page q table msgs = None \<Longrightarrow> batch q table msgs = Crashed"
  by (subst batch.simps) simp

text \<open>No run of \<open>batch\<close> goes from page to page for ever, whatever the races give.\<close>

lemma batch_calls_wf:
  "wf {((table', next), (table, msgs)). msgs \<noteq> [] \<and> batch_page q table msgs = Some (table', next)}"
proof (rule wf_subset)
  show "wf (measure (\<lambda>(table, msgs). pending_after table msgs))" by simp
  show "{((table', next), (table, msgs)). msgs \<noteq> [] \<and> batch_page q table msgs = Some (table', next)}
          \<subseteq> measure (\<lambda>(table, msgs). pending_after table msgs)"
    by (auto dest: batch_page_decreases)
qed

text \<open>A flush that returns has only deleted: what it leaves was in the table.\<close>

lemma batch_subset: "batch q table msgs = Returned t \<Longrightarrow> set t \<subseteq> set table"
proof (induction q table msgs rule: batch.induct)
  case (1 q table msgs)
  show ?case
  proof (cases "msgs = []")
    case True
    with "1.prems" show ?thesis by (simp add: batch_Nil)
  next
    case False
    then have ne: "length msgs \<noteq> 0" by simp
    show ?thesis
    proof (cases "batch_page q table msgs")
      case None
      from batch_crash[OF False None] "1.prems" show ?thesis by simp
    next
      case (Some p)
      obtain table' "next" where p: "p = (table', next)" by (cases p)
      have page: "batch_page q table msgs = Some (table', next)" using Some p by simp
      have "batch q table' next = Returned t"
        using "1.prems" unfolding batch_step[OF False page] .
      then have "set t \<subseteq> set table'"
        by (rule "1.IH"[OF ne page refl])
      moreover have "set table' \<subseteq> set table"
        using batch_page_Some(1)[OF page] by (auto simp: delete_all_eq)
      ultimately show ?thesis by blast
    qed
  qed
qed

lemma worker_set:
  "set (worker q i g) = {msg_Id m | m. m \<in> set g \<and> fst (handle q i m) = None}"
  by (induction g) (auto split: option.splits)

lemma group_add_member:
  "(\<exists>g. (k, g) \<in> set (group_add groups msg) \<and> m \<in> set g) \<longleftrightarrow>
     (\<exists>g. (k, g) \<in> set groups \<and> m \<in> set g) \<or> (k = msg_Peer msg \<and> m = msg)"
  by (induction groups msg rule: group_add.induct) auto

lemma foldl_group_add_member:
  "(\<exists>g. (k, g) \<in> set (foldl group_add groups msgs) \<and> m \<in> set g) \<longleftrightarrow>
     (\<exists>g. (k, g) \<in> set groups \<and> m \<in> set g) \<or> (k = msg_Peer m \<and> m \<in> set msgs)"
  by (induction msgs arbitrary: groups) (auto simp: group_add_member)

lemma group_add_keys: "fst ` set (group_add groups msg) = insert (msg_Peer msg) (fst ` set groups)"
  by (induction groups msg rule: group_add.induct) auto

lemma group_add_distinct:
  "distinct (map fst groups) \<Longrightarrow> distinct (map fst (group_add groups msg))"
proof (induction groups msg rule: group_add.induct)
  case (1 msg)
  then show ?case by simp
next
  case (2 k ms groups msg)
  then show ?case using group_add_keys[of groups msg] by auto
qed

lemma foldl_group_add_distinct:
  "distinct (map fst groups) \<Longrightarrow> distinct (map fst (foldl group_add groups msgs))"
  by (induction msgs arbitrary: groups) (auto simp: group_add_distinct)

text \<open>
  A page whose accepted messages are all for one peer has one goroutine at most that
  appends: there is no race, and \<open>toDelete\<close> holds the ids of the accepted messages.
\<close>

lemma go_workers_one_peer:
  assumes "\<forall>m\<in>set msgs. fst (handle q (msg_Peer m) m) = None \<longrightarrow> msg_Peer m = p"
  shows "\<exists>toDelete. go_workers q (foldl group_add [] msgs) msgs = Some toDelete
           \<and> set toDelete = {msg_Id m | m. m \<in> set msgs \<and> fst (handle q (msg_Peer m) m) = None}"
proof -
  let ?groups = "foldl group_add [] msgs"
  let ?f = "\<lambda>(i, g). worker q i g"
  have a: "k = msg_Peer m \<and> m \<in> set msgs" if "(k, g) \<in> set ?groups" "m \<in> set g" for k g m
    using that foldl_group_add_member[of k "[]" msgs m] by auto
  have b: "\<exists>g. (msg_Peer m, g) \<in> set ?groups \<and> m \<in> set g" if "m \<in> set msgs" for m
    using that foldl_group_add_member[of "msg_Peer m" "[]" msgs m] by auto
  have d: "distinct (map fst ?groups)" by (rule foldl_group_add_distinct) simp
  have writer: "fst x = p" if "x \<in> set ?groups" "?f x \<noteq> []" for x
  proof -
    obtain k g where x: "x = (k, g)" by (cases x)
    from that(2) x have "set (worker q k g) \<noteq> {}" by simp
    then obtain m where m: "m \<in> set g" "fst (handle q k m) = None"
      unfolding worker_set by blast
    from a[of k g m] that(1) x m(1) have km: "k = msg_Peer m" "m \<in> set msgs" by auto
    with assms m(2) x show ?thesis by auto
  qed
  have "length (filter (\<lambda>ids. ids \<noteq> []) (map ?f ?groups))
          = length (filter (\<lambda>x. ?f x \<noteq> []) ?groups)"
    by (simp add: filter_map comp_def)
  also have "\<dots> \<le> length (filter (\<lambda>x. fst x = p) ?groups)"
    using writer by (intro length_filter_mono) blast
  also have "\<dots> \<le> 1" using d by (rule length_filter_key_le_1)
  finally have one: "length (filter (\<lambda>ids. ids \<noteq> []) (map ?f ?groups)) \<le> 1" .
  then have run: "go_workers q ?groups msgs = Some (concat (map ?f ?groups))"
    by (simp add: go_workers_def)
  have "set (concat (map ?f ?groups))
          = {msg_Id m | m. m \<in> set msgs \<and> fst (handle q (msg_Peer m) m) = None}"
  proof (intro set_eqI iffI)
    fix i
    assume "i \<in> set (concat (map ?f ?groups))"
    then obtain k g where kg: "(k, g) \<in> set ?groups" "i \<in> set (worker q k g)" by auto
    then obtain m where m: "i = msg_Id m" "m \<in> set g" "fst (handle q k m) = None"
      unfolding worker_set by blast
    with a[of k g m] kg(1)
    show "i \<in> {msg_Id m | m. m \<in> set msgs \<and> fst (handle q (msg_Peer m) m) = None}" by auto
  next
    fix i
    assume "i \<in> {msg_Id m | m. m \<in> set msgs \<and> fst (handle q (msg_Peer m) m) = None}"
    then obtain m where m: "i = msg_Id m" "m \<in> set msgs" "fst (handle q (msg_Peer m) m) = None"
      by auto
    from b[OF m(2)] obtain g where g: "(msg_Peer m, g) \<in> set ?groups" "m \<in> set g" by auto
    with m have "i \<in> set (worker q (msg_Peer m) g)" unfolding worker_set by blast
    with g(1) show "i \<in> set (concat (map ?f ?groups))" by force
  qed
  with run show ?thesis by blast
qed

text \<open>
  On such a page \<open>batch\<close> does not crash: it deletes with the ids of the accepted
  messages and goes on with the next page.
\<close>

lemma batch_page_one_peer:
  assumes "\<forall>m\<in>set msgs. fst (handle q (msg_Peer m) m) = None \<longrightarrow> msg_Peer m = p"
  shows "\<exists>toDelete.
           batch_page q table msgs =
             Some (delete_all q table toDelete,
                   BlockMessages_List table (msg_Id (last msgs)) blockFlushGroupSize)
           \<and> set toDelete = {msg_Id m | m. m \<in> set msgs \<and> fst (handle q (msg_Peer m) m) = None}"
proof -
  from go_workers_one_peer[OF assms]
  obtain toDelete where td: "go_workers q (foldl group_add [] msgs) msgs = Some toDelete"
    and ids: "set toDelete = {msg_Id m | m. m \<in> set msgs \<and> fst (handle q (msg_Peer m) m) = None}"
    by (elim exE conjE)
  have "batch_page q table msgs =
          Some (delete_all q table toDelete,
                BlockMessages_List table (msg_Id (last msgs)) blockFlushGroupSize)"
    unfolding batch_page_def td by (simp add: Let_def)
  with ids show ?thesis by (intro exI conjI)
qed

text \<open>
  In the lemmas below, \<open>T\<close> is a table in which every message that \<open>handle\<close> accepts
  is for the one peer \<open>p\<close>: no page drawn from it has a race, and \<open>batch\<close> returns.
\<close>

lemma batch_one_peer_returns:
  assumes "\<forall>m\<in>set T. fst (handle q (msg_Peer m) m) = None \<longrightarrow> msg_Peer m = p"
      and "set msgs \<subseteq> set T" "set table \<subseteq> set T"
  shows "\<exists>t. batch q table msgs = Returned t"
  using assms
proof (induction q table msgs rule: batch.induct)
  case (1 q table msgs)
  show ?case
  proof (cases "msgs = []")
    case True
    then show ?thesis by (simp add: batch_Nil)
  next
    case False
    then have ne: "length msgs \<noteq> 0" by simp
    have rf: "\<forall>m\<in>set msgs. fst (handle q (msg_Peer m) m) = None \<longrightarrow> msg_Peer m = p"
      using "1.prems"(1,2) by blast
    from batch_page_one_peer[of msgs q p table, OF rf]
    obtain toDelete where page: "batch_page q table msgs =
        Some (delete_all q table toDelete,
              BlockMessages_List table (msg_Id (last msgs)) blockFlushGroupSize)"
      by (elim exE conjE)
    have sub1: "set (BlockMessages_List table (msg_Id (last msgs)) blockFlushGroupSize) \<subseteq> set T"
      using "1.prems"(3) List_member[of _ table] by blast
    have sub2: "set (delete_all q table toDelete) \<subseteq> set T"
      using "1.prems"(3) by (auto simp: delete_all_eq)
    have "\<exists>t. batch q (delete_all q table toDelete)
            (BlockMessages_List table (msg_Id (last msgs)) blockFlushGroupSize) = Returned t"
      by (rule "1.IH"[OF ne page refl "1.prems"(1) sub1 sub2])
    then show ?thesis unfolding batch_step[OF False page] .
  qed
qed

text \<open>
  A message of a page without race that \<open>handle\<close> accepts, and that the datastore
  agrees to delete, is not in the table that the flush leaves.
\<close>

lemma batch_deletes_page:
  assumes "\<forall>m'\<in>set msgs. fst (handle q (msg_Peer m') m') = None \<longrightarrow> msg_Peer m' = p"
      and "m \<in> set msgs" "fst (handle q (msg_Peer m) m) = None" "Delete_error q (msg_Id m) = None"
      and "batch q table msgs = Returned t"
  shows "m \<notin> set t"
proof -
  from assms(2) have ne: "msgs \<noteq> []" by (cases msgs) simp_all
  from batch_page_one_peer[of msgs q p table, OF assms(1)]
  obtain toDelete where page: "batch_page q table msgs =
        Some (delete_all q table toDelete,
              BlockMessages_List table (msg_Id (last msgs)) blockFlushGroupSize)"
    and ids: "set toDelete = {msg_Id m | m. m \<in> set msgs \<and> fst (handle q (msg_Peer m) m) = None}"
    by (elim exE conjE)
  have "msg_Id m \<in> set toDelete" unfolding ids using assms(2,3) by blast
  then have gone: "m \<notin> set (delete_all q table toDelete)"
    using assms(4) by (simp add: delete_all_eq)
  have "batch q (delete_all q table toDelete)
          (BlockMessages_List table (msg_Id (last msgs)) blockFlushGroupSize) = Returned t"
    using assms(5) unfolding batch_step[OF ne page] .
  then have "set t \<subseteq> set (delete_all q table toDelete)" by (rule batch_subset)
  with gone show ?thesis by blast
qed

text \<open>
  With distinct ids, a message above the offset that is not in the page lies above the
  whole page.
\<close>

lemma List_cut:
  assumes d: "distinct (map msg_Id table)" and m: "m \<in> set table" "offset < msg_Id m"
      and out: "m \<notin> set (BlockMessages_List table offset limit)"
  shows "BlockMessages_List table offset limit \<noteq> [] \<or> limit = 0"
    and "limit \<noteq> 0 \<Longrightarrow> msg_Id (last (BlockMessages_List table offset limit)) < msg_Id m"
proof -
  let ?xs = "sort_key msg_Id (filter (\<lambda>m. offset < msg_Id m) table)"
  have page: "BlockMessages_List table offset limit = take limit ?xs"
    by (simp add: BlockMessages_List_def)
  have mem: "m \<in> set ?xs" using m by simp
  have srt: "sorted (map msg_Id ?xs)" by simp
  have "distinct (map msg_Id (filter (\<lambda>m. offset < msg_Id m) table))"
    using d by (rule distinct_map_filter)
  then have dst: "distinct (map msg_Id ?xs)"
    by (simp add: distinct_map)
  have split: "?xs = take limit ?xs @ drop limit ?xs" by simp
  from mem out have indrop: "m \<in> set (drop limit ?xs)"
    unfolding page by (metis Un_iff append_take_drop_id set_append)
  then have long: "limit < length ?xs" by (cases "limit < length ?xs") auto
  then have xne: "?xs \<noteq> []" by (metis list.size(3) not_less0)
  then show "BlockMessages_List table offset limit \<noteq> [] \<or> limit = 0"
    unfolding page take_eq_Nil by blast
  assume l: "limit \<noteq> 0"
  with xne have tne: "take limit ?xs \<noteq> []" unfolding take_eq_Nil by blast
  then have lastin: "last (take limit ?xs) \<in> set (take limit ?xs)" by simp
  have "sorted (map msg_Id (take limit ?xs) @ map msg_Id (drop limit ?xs))"
    using srt by (metis split map_append)
  then have le: "msg_Id (last (take limit ?xs)) \<le> msg_Id m"
    using lastin indrop by (auto simp: sorted_append)
  have "distinct (map msg_Id (take limit ?xs) @ map msg_Id (drop limit ?xs))"
    using dst by (metis split map_append)
  then have "msg_Id (last (take limit ?xs)) \<noteq> msg_Id m"
    using lastin indrop by auto
  with le show "msg_Id (last (BlockMessages_List table offset limit)) < msg_Id m"
    unfolding page by simp
qed

lemma batch_deletes_later:
  assumes "\<forall>m'\<in>set T. fst (handle q (msg_Peer m') m') = None \<longrightarrow> msg_Peer m' = p"
      and "set msgs \<subseteq> set T" "set table \<subseteq> set T"
      and "msgs \<noteq> []" "distinct (map msg_Id table)" "m \<in> set table"
      and "msg_Id (last msgs) < msg_Id m"
      and "fst (handle q (msg_Peer m) m) = None" "Delete_error q (msg_Id m) = None"
      and "batch q table msgs = Returned t"
  shows "m \<notin> set t"
  using assms
proof (induction q table msgs rule: batch.induct)
  case (1 q table msgs)
  note ne = "1.prems"(4)
  have rf: "\<forall>m'\<in>set msgs. fst (handle q (msg_Peer m') m') = None \<longrightarrow> msg_Peer m' = p"
    using "1.prems"(1,2) by blast
  from batch_page_one_peer[of msgs q p table, OF rf]
  obtain toDelete where page: "batch_page q table msgs =
        Some (delete_all q table toDelete,
              BlockMessages_List table (msg_Id (last msgs)) blockFlushGroupSize)"
    by (elim exE conjE)
  define table' where "table' = delete_all q table toDelete"
  define nxt where "nxt = BlockMessages_List table (msg_Id (last msgs)) blockFlushGroupSize"
  have page': "batch_page q table msgs = Some (table', nxt)"
    using page by (simp add: table'_def nxt_def)
  have rest: "batch q table' nxt = Returned t"
    using "1.prems"(10) unfolding batch_step[OF ne page'] .
  have sub1: "set nxt \<subseteq> set T"
    unfolding nxt_def using "1.prems"(3) List_member[of _ table] by blast
  have sub2: "set table' \<subseteq> set T"
    unfolding table'_def using "1.prems"(3) by (auto simp: delete_all_eq)
  show ?case
  proof (cases "m \<in> set nxt")
    case True
    have rf': "\<forall>m'\<in>set nxt. fst (handle q (msg_Peer m') m') = None \<longrightarrow> msg_Peer m' = p"
      using sub1 "1.prems"(1) by blast
    show ?thesis
      by (rule batch_deletes_page[OF rf' True "1.prems"(8,9) rest])
  next
    case False
    have size: "blockFlushGroupSize \<noteq> 0" by (simp add: blockFlushGroupSize_def)
    from False have out:
      "m \<notin> set (BlockMessages_List table (msg_Id (last msgs)) blockFlushGroupSize)"
      by (simp add: nxt_def)
    have nne: "nxt \<noteq> []"
      using List_cut(1)[OF "1.prems"(5,6,7) out] size by (simp add: nxt_def)
    have lt: "msg_Id (last nxt) < msg_Id m"
      using List_cut(2)[OF "1.prems"(5,6,7) out size] by (simp add: nxt_def)
    have d': "distinct (map msg_Id table')"
      unfolding table'_def delete_all_eq using "1.prems"(5) by (rule distinct_map_filter)
    show ?thesis
    proof (cases "m \<in> set table'")
      case True
      from ne have ne': "length msgs \<noteq> 0" by simp
      show ?thesis
        by (rule "1.IH"[OF ne' page' refl "1.prems"(1) sub1 sub2 nne d' True lt "1.prems"(8,9) rest])
    next
      case False
      then show ?thesis using batch_subset[OF rest] by blast
    qed
  qed
qed

lemma handle_unreachable_no_inbox:
  assumes "\<not> service_online q \<or> SwarmConnected q peerId = Inr False"
      and "case Peers_Get q peerId of None \<Rightarrow> True | Some c \<Rightarrow> Inboxes c = []"
  shows "handle q peerId msg = (None, [])"
  using assms by (auto simp: handle_def split: option.splits)

text \<open>
  A flush of a table in which \<open>handle\<close> accepts the messages of one peer only returns,
  and no accepted message with a non-empty id that the datastore agrees to delete is
  left, when the ids are distinct.
\<close>

lemma Flush_one_peer_deletes:
  assumes "\<forall>m'\<in>set table. fst (handle q (msg_Peer m') m') = None \<longrightarrow> msg_Peer m' = p"
      and "\<not> service_is_nil q" "distinct (map msg_Id table)"
      and "m \<in> set table" "msg_Id m \<noteq> []"
      and "fst (handle q (msg_Peer m) m) = None" "Delete_error q (msg_Id m) = None"
  shows "\<exists>t. Flush q table = Returned t \<and> m \<notin> set t"
proof -
  let ?first = "BlockMessages_List table [] blockFlushGroupSize"
  have sub: "set ?first \<subseteq> set table" using List_member[of _ table] by blast
  have rf: "\<forall>m'\<in>set ?first. fst (handle q (msg_Peer m') m') = None \<longrightarrow> msg_Peer m' = p"
    using sub assms(1) by blast
  from batch_one_peer_returns[OF assms(1) sub subset_refl]
  obtain t where t: "batch q table ?first = Returned t" by (elim exE)
  have pos: "[] < msg_Id m" using assms(5) by (cases "msg_Id m") auto
  have size: "blockFlushGroupSize \<noteq> 0" by (simp add: blockFlushGroupSize_def)
  have "m \<notin> set t"
  proof (cases "m \<in> set ?first")
    case True
    show ?thesis by (rule batch_deletes_page[OF rf True assms(6,7) t])
  next
    case False
    have ne: "?first \<noteq> []" using List_cut(1)[OF assms(3,4) pos False] size by simp
    have lt: "msg_Id (last ?first) < msg_Id m"
      using List_cut(2)[OF assms(3,4) pos False size] .
    show ?thesis
      by (rule batch_deletes_later[OF assms(1) sub subset_refl ne assms(3,4) lt assms(6,7) t])
  qed
  with t assms(2) show ?thesis by (simp add: Flush_def)
qed

lemma demo_outbox_sel:
  "\<not> service_is_nil demo_outbox"
  "\<not> service_online demo_outbox"
  "Peers_Get demo_outbox ''P2'' = None"
  "Delete_error demo_outbox i = None"
  by (simp_all add: demo_outbox_def demo_outbox_quiet_def)

section \<open>Claims on the outbox\<close>

text \<open>
  C2, as the claim states it: a queued message whose peer is not reachable and has no
  known inbox is left in the queue by a flush. \<open>handle\<close> returns an error only from the
  connection check or from the cafe outbox; for such a message it returns nil, so its
  goroutine appends its id to \<open>toDelete\<close>. Below, the service is offline, \<open>P2\<close> has no
  contact and the queue holds two messages, both for \<open>P2\<close>: one goroutine runs, and
  the flush returns with the queue empty.
\<close>

theorem Flush_unreachable_no_inbox_counterexample:
  "demo_msg ''2'' ''P2'' \<in> set demo_queue_P2
   \<and> map msg_Peer demo_queue_P2 = [''P2'', ''P2'']
   \<and> \<not> service_is_nil demo_outbox
   \<and> \<not> service_online demo_outbox
   \<and> Peers_Get demo_outbox ''P2'' = None
   \<and> Flush demo_outbox demo_queue_P2 = Returned []"
  by (simp add: Flush_def batch.simps batch_page_def go_workers_def BlockMessages_List_def
        demo_queue_P2_def demo_msg_def blockFlushGroupSize_def demo_outbox_def
        demo_outbox_quiet_def handle_def BlockMessages_Delete_def)

text \<open>
  C2, amended. Take a flush with the service present, a queue of distinct ids, and in
  it a message with a non-empty id whose deletion the datastore does not refuse, whose
  peer is not reachable (the service is offline, or the connection check answers that
  the peer is not connected) and has no known inbox. Then \<open>handle\<close> sends nothing,
  hands nothing to the cafe outbox and returns no error. When moreover every message
  of the queue that \<open>handle\<close> accepts is for that same peer, so that one goroutine at
  most appends to \<open>toDelete\<close>, the flush returns and the message is deleted: it is not
  kept for a retry. Nothing is said of a flush in which goroutines of several peers
  append.
\<close>

theorem Flush_unreachable_no_inbox_deleted:
  assumes "\<not> service_is_nil q"
      and "distinct (map msg_Id table)"
      and "m \<in> set table"
      and "msg_Id m \<noteq> []"
      and "Delete_error q (msg_Id m) = None"
      and "\<not> service_online q \<or> SwarmConnected q (msg_Peer m) = Inr False"
      and "case Peers_Get q (msg_Peer m) of None \<Rightarrow> True | Some c \<Rightarrow> Inboxes c = []"
      and "\<forall>m'\<in>set table. fst (handle q (msg_Peer m') m') = None \<longrightarrow> msg_Peer m' = msg_Peer m"
  shows "handle q (msg_Peer m) m = (None, [])
       \<and> (\<exists>t. Flush q table = Returned t \<and> m \<notin> set t)"
proof
  show h: "handle q (msg_Peer m) m = (None, [])"
    using assms(6,7) by (rule handle_unreachable_no_inbox)
  then have acc: "fst (handle q (msg_Peer m) m) = None" by simp
  show "\<exists>t. Flush q table = Returned t \<and> m \<notin> set t"
    by (rule Flush_one_peer_deletes[OF assms(8) assms(1,2,3,4) acc assms(5)])
qed

theorem Flush_unreachable_no_inbox_deleted_witness:
  "\<not> service_is_nil demo_outbox
   \<and> distinct (map msg_Id demo_queue_P2)
   \<and> demo_msg ''2'' ''P2'' \<in> set demo_queue_P2
   \<and> msg_Id (demo_msg ''2'' ''P2'') \<noteq> []
   \<and> Delete_error demo_outbox (msg_Id (demo_msg ''2'' ''P2'')) = None
   \<and> \<not> service_online demo_outbox
   \<and> Peers_Get demo_outbox (msg_Peer (demo_msg ''2'' ''P2'')) = None
   \<and> map msg_Peer demo_queue_P2 = [''P2'', ''P2'']
   \<and> handle demo_outbox ''P2'' (demo_msg ''2'' ''P2'') = (None, [])
   \<and> (\<exists>t. Flush demo_outbox demo_queue_P2 = Returned t \<and> demo_msg ''2'' ''P2'' \<notin> set t)"
proof -
  let ?m = "demo_msg ''2'' ''P2''"
  have h1: "\<not> service_is_nil demo_outbox" by (rule demo_outbox_sel)
  have h2: "distinct (map msg_Id demo_queue_P2)" by (simp add: demo_queue_P2_def demo_msg_def)
  have h3: "?m \<in> set demo_queue_P2" by (simp add: demo_queue_P2_def)
  have h4: "msg_Id ?m \<noteq> []" by (simp add: demo_msg_def)
  have h5: "Delete_error demo_outbox (msg_Id ?m) = None" by (rule demo_outbox_sel)
  have off: "\<not> service_online demo_outbox" by (rule demo_outbox_sel)
  then have h6: "\<not> service_online demo_outbox \<or> SwarmConnected demo_outbox (msg_Peer ?m) = Inr False"
    by (rule disjI1)
  have p: "Peers_Get demo_outbox (msg_Peer ?m) = None" by (simp add: demo_msg_def demo_outbox_sel)
  then have h7: "case Peers_Get demo_outbox (msg_Peer ?m) of None \<Rightarrow> True | Some c \<Rightarrow> Inboxes c = []"
    by simp
  have peers: "map msg_Peer demo_queue_P2 = [''P2'', ''P2'']"
    by (simp add: demo_queue_P2_def demo_msg_def)
  have h8: "\<forall>m'\<in>set demo_queue_P2.
      fst (handle demo_outbox (msg_Peer m') m') = None \<longrightarrow> msg_Peer m' = msg_Peer ?m"
    by (simp add: demo_queue_P2_def demo_msg_def)
  from Flush_unreachable_no_inbox_deleted[OF h1 h2 h3 h4 h5 h6 h7 h8]
  have "handle demo_outbox ''P2'' ?m = (None, [])
        \<and> (\<exists>t. Flush demo_outbox demo_queue_P2 = Returned t \<and> ?m \<notin> set t)"
    by (simp add: demo_msg_def)
  with h1 h2 h3 h4 h5 off p peers show ?thesis by simp
qed

text \<open>
  C9. The claim: for every queue \<open>Flush\<close> terminates, page after page, committing the
  deletions of the messages it handled with success, and stops at an empty page. A
  page with messages for two peers has two goroutines that append to \<open>toDelete\<close> with no
  lock. In the run below the page is the message \<open>1\<close> for \<open>P1\<close> and the message \<open>2\<close> for
  \<open>P2\<close>, \<open>handle\<close> accepts both (each goroutine has one id to append), and the appends
  race: both goroutines read the empty slice, then the first stores its slice of one
  id and the second stores its own over it. The flush returns with the message \<open>1\<close>
  still queued: its deletion, which the datastore would not refuse, is not committed.
\<close>

theorem batch_racing_appends_lose_deletion:
  "BlockMessages_List demo_queue [] blockFlushGroupSize
       = [demo_msg ''1'' ''P1'', demo_msg ''2'' ''P2'']
   \<and> foldl group_add [] [demo_msg ''1'' ''P1'', demo_msg ''2'' ''P2'']
       = [(''P1'', [demo_msg ''1'' ''P1'']), (''P2'', [demo_msg ''2'' ''P2''])]
   \<and> worker demo_outbox ''P1'' [demo_msg ''1'' ''P1''] = [''1'']
   \<and> worker demo_outbox ''P2'' [demo_msg ''2'' ''P2''] = [''2'']
   \<and> interleave [0, 1, 0, 1] [[''1''], [''2'']] = [''2'']
   \<and> go_workers demo_outbox
         [(''P1'', [demo_msg ''1'' ''P1'']), (''P2'', [demo_msg ''2'' ''P2''])]
         [demo_msg ''1'' ''P1'', demo_msg ''2'' ''P2''] = Some [''2'']
   \<and> Delete_error demo_outbox ''1'' = None
   \<and> Flush demo_outbox demo_queue = Returned [demo_msg ''1'' ''P1'']"
  by (simp add: Flush_def batch.simps batch_page_def go_workers_def BlockMessages_List_def
        demo_queue_def demo_msg_def blockFlushGroupSize_def demo_outbox_def
        demo_outbox_quiet_def handle_def BlockMessages_Delete_def interleave_def)

end
